theory Spec2Isabelle
  imports Complex_Main
begin

section \<open>Strings and numbers of the host language\<close>

text \<open>
  Python strings are modelled as \<^typ>\<open>string\<close>, the UTF-8 bytes of the text. The four
  non-ASCII characters of the source's literals are written as their UTF-8 bytes; substring
  tests on UTF-8 bytes agree with substring tests on code points. A finite Python float is
  modelled as the rational number it denotes (\<^typ>\<open>rat\<close>). The arithmetic of the financial
  check of a draft is modelled with the rounding of binary floating point, see
  \<open>round64\<close> below; the other computations on floats are comparisons with constants and
  the effectiveness formula, which are modelled on the rationals without rounding.
  A \<open>datetime\<close> is the rational number of seconds since the epoch.
\<close>

text \<open>\<open>s.startswith(p)\<close>, arguments in the order (p, s).\<close>

fun starts_with :: "string \<Rightarrow> string \<Rightarrow> bool" where
  "starts_with [] ys = True"
| "starts_with (x # xs) [] = False"
| "starts_with (x # xs) (y # ys) = (x = y \<and> starts_with xs ys)"

text \<open>The operator \<open>xs in ys\<close> on strings: \<open>xs\<close> occurs as a contiguous substring.\<close>

fun str_in :: "string \<Rightarrow> string \<Rightarrow> bool" where
  "str_in xs [] = (xs = [])"
| "str_in xs (y # ys) = (starts_with xs (y # ys) \<or> str_in xs ys)"

text \<open>\<open>str.lower()\<close> on the ASCII letters; every other byte is left as it is.\<close>

definition lower_char :: "char \<Rightarrow> char" where
  "lower_char c =
     (case map_of (zip ''ABCDEFGHIJKLMNOPQRSTUVWXYZ'' ''abcdefghijklmnopqrstuvwxyz'') c of
        Some d \<Rightarrow> d
      | None \<Rightarrow> c)"

definition lower :: "string \<Rightarrow> string" where
  "lower s = map lower_char s"

text \<open>\<open>sep.join(parts)\<close>.\<close>

fun join :: "string \<Rightarrow> string list \<Rightarrow> string" where
  "join sep [] = []"
| "join sep [p] = p"
| "join sep (p # q # ps) = p @ sep @ join sep (q # ps)"

definition digits10 :: string where
  "digits10 = ''0123456789''"

definition digit_char :: "int \<Rightarrow> char" where
  "digit_char n = digits10 ! nat (n mod 10)"

definition digit_val :: "char \<Rightarrow> int" where
  "digit_val c =
     (case map_of [(CHR ''0'', 0), (CHR ''1'', 1), (CHR ''2'', 2), (CHR ''3'', 3), (CHR ''4'', 4),
                   (CHR ''5'', 5), (CHR ''6'', 6), (CHR ''7'', 7), (CHR ''8'', 8), (CHR ''9'', 9)] c of
        Some n \<Rightarrow> n
      | None \<Rightarrow> 0)"

text \<open>\<open>str(n)\<close> for an integer: the decimal digits of a number that is not negative,
  and a minus sign before those of its negation otherwise.\<close>

function str_pos :: "int \<Rightarrow> string" where
  "str_pos n = (if n < 10 then [digit_char n] else str_pos (n div 10) @ [digit_char (n mod 10)])"
  by pat_completeness auto
termination
  by (relation "measure nat") auto

declare str_pos.simps [simp del]

definition str_int :: "int \<Rightarrow> string" where
  "str_int i = (if i < 0 then CHR ''-'' # str_pos (- i) else str_pos i)"

text \<open>\<open>int(x)\<close> for a float: truncation towards zero.\<close>

definition int_of_float :: "rat \<Rightarrow> int" where
  "int_of_float x = (if 0 \<le> x then \<lfloor>x\<rfloor> else \<lceil>x\<rceil>)"

definition nl :: string where
  "nl = [CHR 0x0A]"

definition cross_mark :: string where
  "cross_mark = [CHR 0xE2, CHR 0x9D, CHR 0x8C]"

definition check_mark :: string where
  "check_mark = [CHR 0xE2, CHR 0x9C, CHR 0x85]"

definition warning_sign :: string where
  "warning_sign = [CHR 0xE2, CHR 0x9A, CHR 0xA0, CHR 0xEF, CHR 0xB8, CHR 0x8F]"

definition times_sign :: string where
  "times_sign = [CHR 0xC3, CHR 0x97]"

definition dq :: string where
  "dq = [CHR 0x22]"

definition sq :: string where
  "sq = [CHR 0x27]"

subsection \<open>Characters of a text\<close>

text \<open>
  The pattern matching of \<open>re\<close> and the conversion \<open>float\<close> work on the characters (code
  points) of a text, not on its bytes. In UTF-8 a character is one byte that is not a
  continuation byte (\<open>0x80\<close> to \<open>0xBF\<close>), followed by its continuation bytes.
  \<open>code_points s\<close> is the list of the characters of \<open>s\<close>, each as its bytes.
\<close>

definition is_continuation :: "char \<Rightarrow> bool" where
  "is_continuation c = (0x80 \<le> (of_char c :: int) \<and> (of_char c :: int) < 0xC0)"

function code_points :: "string \<Rightarrow> string list" where
  "code_points [] = []"
| "code_points (c # s) =
     (c # takeWhile is_continuation s) # code_points (dropWhile is_continuation s)"
  by pat_completeness auto
termination
  by (relation "measure length") (auto simp add: less_Suc_eq_le length_dropWhile_le)

subsection \<open>Floating point\<close>

text \<open>
  A Python float is an IEEE 754 binary64 number: a finite number, an infinity or NaN.
  The sign of a zero is not kept, since no comparison of the program reads it.
\<close>

datatype pyfloat = Finite rat | PosInf | NegInf | NaN

text \<open>\<open>int.bit_length\<close>: the number of binary digits of a positive integer.\<close>

function bit_length :: "int \<Rightarrow> int" where
  "bit_length n = (if n \<le> 0 then 0 else 1 + bit_length (n div 2))"
  by pat_completeness auto
termination
  by (relation "measure nat") auto

declare bit_length.simps [simp del]

definition pow2 :: "int \<Rightarrow> rat" where
  "pow2 e = (if 0 \<le> e then 2 ^ nat e else 1 / 2 ^ nat (- e))"

text \<open>
  For \<open>x > 0\<close> the exponent \<open>e\<close> with \<open>pow2 e \<le> x < pow2 (e + 1)\<close>. A fraction \<open>p / q\<close>
  whose parts have \<open>m\<close> and \<open>n\<close> binary digits lies between \<open>pow2 (m - n - 1)\<close> and
  \<open>pow2 (m - n + 1)\<close>.
\<close>

definition floor_log2 :: "rat \<Rightarrow> int" where
  "floor_log2 x =
     (let (p, q) = quotient_of x;
          e = bit_length p - bit_length q
      in if pow2 e \<le> x then e else e - 1)"

text \<open>Rounding to the nearest integer, a tie going to the even one.\<close>

definition round_half_even :: "rat \<Rightarrow> int" where
  "round_half_even x =
     (let f = \<lfloor>x\<rfloor>; d = x - of_int f
      in if d < 1 / 2 then f
         else if d > 1 / 2 then f + 1
         else if even f then f else f + 1)"

text \<open>
  The binary64 number nearest to a rational, a tie going to the even significand: the
  result of every arithmetic operation on floats and of reading a decimal numeral.
  The significand has 53 binary digits, the unit of the smallest numbers is
  \<open>pow2 (- 1074)\<close>, and a result that reaches \<open>pow2 1024\<close> is an infinity.
\<close>

definition round64 :: "rat \<Rightarrow> pyfloat" where
  "round64 x =
     (if x = 0 then Finite 0
      else (let e = floor_log2 \<bar>x\<bar>;
                q = max (e - 52) (- 1074);
                r = of_int (round_half_even (x / pow2 q)) * pow2 q
            in if pow2 1024 \<le> \<bar>r\<bar> then (if 0 < x then PosInf else NegInf)
               else Finite r))"

text \<open>The operators \<open>*\<close>, \<open>-\<close>, \<open>abs\<close> and \<open>>\<close> on floats.\<close>

fun fmul :: "pyfloat \<Rightarrow> pyfloat \<Rightarrow> pyfloat" where
  "fmul (Finite a) (Finite b) = round64 (a * b)"
| "fmul NaN y = NaN"
| "fmul x NaN = NaN"
| "fmul PosInf (Finite b) = (if b = 0 then NaN else if 0 < b then PosInf else NegInf)"
| "fmul NegInf (Finite b) = (if b = 0 then NaN else if 0 < b then NegInf else PosInf)"
| "fmul (Finite a) PosInf = (if a = 0 then NaN else if 0 < a then PosInf else NegInf)"
| "fmul (Finite a) NegInf = (if a = 0 then NaN else if 0 < a then NegInf else PosInf)"
| "fmul PosInf PosInf = PosInf"
| "fmul PosInf NegInf = NegInf"
| "fmul NegInf PosInf = NegInf"
| "fmul NegInf NegInf = PosInf"

fun fsub :: "pyfloat \<Rightarrow> pyfloat \<Rightarrow> pyfloat" where
  "fsub (Finite a) (Finite b) = round64 (a - b)"
| "fsub NaN y = NaN"
| "fsub x NaN = NaN"
| "fsub PosInf (Finite b) = PosInf"
| "fsub NegInf (Finite b) = NegInf"
| "fsub (Finite a) PosInf = NegInf"
| "fsub (Finite a) NegInf = PosInf"
| "fsub PosInf PosInf = NaN"
| "fsub PosInf NegInf = PosInf"
| "fsub NegInf PosInf = NegInf"
| "fsub NegInf NegInf = NaN"

fun fabs :: "pyfloat \<Rightarrow> pyfloat" where
  "fabs (Finite a) = Finite \<bar>a\<bar>"
| "fabs PosInf = PosInf"
| "fabs NegInf = PosInf"
| "fabs NaN = NaN"

fun fgt :: "pyfloat \<Rightarrow> pyfloat \<Rightarrow> bool" where
  "fgt (Finite a) (Finite b) = (a > b)"
| "fgt NaN y = False"
| "fgt x NaN = False"
| "fgt PosInf (Finite b) = True"
| "fgt PosInf NegInf = True"
| "fgt PosInf PosInf = False"
| "fgt NegInf y = False"
| "fgt (Finite a) NegInf = True"
| "fgt (Finite a) PosInf = False"

section \<open>The coaching engine (coach.py)\<close>

subsection \<open>Data model\<close>

datatype AgentType =
    GENERAL_CHAT | CODE_GENERATOR | DATA_ANALYST | CUSTOMER_SERVICE | COMPLIANCE_OFFICER
  | CONTENT_CREATOR | DECISION_MAKER | RESEARCHER | SALES_COORDINATOR

fun agent_type_value :: "AgentType \<Rightarrow> string" where
  "agent_type_value GENERAL_CHAT = ''general_chat''"
| "agent_type_value CODE_GENERATOR = ''code_generator''"
| "agent_type_value DATA_ANALYST = ''data_analyst''"
| "agent_type_value CUSTOMER_SERVICE = ''customer_service''"
| "agent_type_value COMPLIANCE_OFFICER = ''compliance_officer''"
| "agent_type_value CONTENT_CREATOR = ''content_creator''"
| "agent_type_value DECISION_MAKER = ''decision_maker''"
| "agent_type_value RESEARCHER = ''researcher''"
| "agent_type_value SALES_COORDINATOR = ''sales_coordinator''"

datatype CoachingLevel = CRITICAL | HIGH | MEDIUM | LOW | INFORMATIONAL

fun coaching_level_value :: "CoachingLevel \<Rightarrow> string" where
  "coaching_level_value CRITICAL = ''critical''"
| "coaching_level_value HIGH = ''high''"
| "coaching_level_value MEDIUM = ''medium''"
| "coaching_level_value LOW = ''low''"
| "coaching_level_value INFORMATIONAL = ''info''"

text \<open>
  Field names that several classes of the source share carry a prefix here:
  \<open>p_\<close> for \<open>AgentProfile\<close>, \<open>e_\<close> for \<open>CoachingEvent\<close>, \<open>v_\<close> for the violation
  dictionary, \<open>r_\<close> for the dictionary that \<open>coach_agent\<close> returns.
\<close>

record AgentProfile =
  p_agent_id :: string
  p_agent_type :: AgentType
  learning_level :: string
  violation_history :: "string \<rightharpoonup> int"
  improvement_score :: rat
  last_coaching :: "rat option"
  coaching_receptiveness :: rat
  preferred_coaching_style :: string
  domain_expertise :: "string list"
  known_weaknesses :: "string list"

record CoachingEvent =
  event_id :: string
  timestamp :: rat
  e_agent_id :: string
  e_agent_type :: AgentType
  e_guardrail :: string
  severity :: CoachingLevel
  violation_description :: string
  coaching_delivered :: string
  coaching_depth :: string
  agent_response :: "string option"
  improved :: "bool option"
  improvement_timeline :: "int option"

text \<open>The violation dictionary, with the keys \<open>_create_violation\<close> gives it.\<close>

record Violation =
  v_agent_id :: string
  v_agent_type :: AgentType
  v_guardrail :: string
  v_severity :: string
  what_happened :: string
  expected :: string
  v_context :: "(string \<times> string) list"

text \<open>
  An entry of \<open>peer_lessons\<close>: the source reads \<open>l.get("agent_id")\<close> and \<open>l['lesson']\<close>.
  No code of the repository ever adds an entry.
\<close>

record Lesson =
  lesson_agent_id :: "string option"
  lesson :: string

text \<open>The dictionary returned by \<open>coach_agent\<close>.\<close>

record CoachingResult =
  coaching :: string
  coaching_level :: CoachingLevel
  suggestions :: "string list"
  principle :: string
  followup_actions :: "string list"
  effectiveness_predicted :: rat
  r_peer_lessons :: string
  r_blocked :: bool

text \<open>
  The state of a \<open>UniversalCoach\<close> object, together with \<open>clock_reads\<close>, the number of
  times the system clock has been read so far. The environment below gives the value of
  each reading.
\<close>

record coach_state =
  agent_profiles :: "string \<rightharpoonup> AgentProfile"
  coaching_history :: "CoachingEvent list"
  peer_lessons :: "string \<rightharpoonup> Lesson list"
  clock_reads :: nat

text \<open>
  What the program takes from outside: \<open>str_float x\<close> is Python's \<open>str(x)\<close> of a float
  (also used by f-strings), \<open>fmt_2f x\<close> is \<open>f"{x:.2f}"\<close>, \<open>now_at n\<close> and \<open>utcnow_at n\<close>
  are what \<open>datetime.now()\<close> and \<open>datetime.utcnow()\<close> return when they are the \<open>n\<close>-th
  reading of the clock, and \<open>api_reply n prompt\<close> is the stripped text that the language
  model's API returns for \<open>prompt\<close> after \<open>n\<close> clock readings, or \<open>None\<close> when the call
  raises. \<open>unicode_decimal ch\<close> is the decimal digit value that the interpreter's Unicode
  database gives to a character \<open>ch\<close> beyond ASCII (\<open>unicodedata.decimal\<close>), or \<open>None\<close>
  when the character is no decimal digit; the character is given as its UTF-8 bytes.
\<close>

record env =
  str_float :: "rat \<Rightarrow> string"
  fmt_2f :: "rat \<Rightarrow> string"
  now_at :: "nat \<Rightarrow> rat"
  utcnow_at :: "nat \<Rightarrow> rat"
  api_reply :: "nat \<Rightarrow> string \<Rightarrow> string option"
  unicode_decimal :: "string \<Rightarrow> int option"

text \<open>\<open>UniversalCoach.__init__\<close>.\<close>

definition init_coach :: coach_state where
  "init_coach = \<lparr> agent_profiles = Map.empty, coaching_history = [],
                   peer_lessons = Map.empty, clock_reads = 0 \<rparr>"

subsection \<open>Profiles\<close>

text \<open>
  \<open>_get_or_create_profile\<close>: the profile stored under the agent id, or a new one that is
  stored there. The result is the profile and the state with the dictionary updated.
\<close>

definition get_or_create_profile ::
    "string \<Rightarrow> AgentType \<Rightarrow> coach_state \<Rightarrow> AgentProfile \<times> coach_state" where
  "get_or_create_profile agent_id agent_type s =
     (case agent_profiles s agent_id of
        Some profile \<Rightarrow> (profile, s)
      | None \<Rightarrow>
          (let profile = \<lparr> p_agent_id = agent_id, p_agent_type = agent_type,
                 learning_level = ''intermediate'', violation_history = Map.empty,
                 improvement_score = 8 / 10, last_coaching = None,
                 coaching_receptiveness = 1,
                 preferred_coaching_style = ''balanced'',
                 domain_expertise = [''commercial_fishing'', ''sales_communication''],
                 known_weaknesses = [] \<rparr>
           in (profile, s\<lparr> agent_profiles := (agent_profiles s)(agent_id \<mapsto> profile) \<rparr>)))"

text \<open>\<open>d.get(k, 0)\<close> on a dictionary of counts.\<close>

definition get0 :: "(string \<rightharpoonup> int) \<Rightarrow> string \<Rightarrow> int" where
  "get0 d k = (case d k of Some c \<Rightarrow> c | None \<Rightarrow> 0)"

text \<open>
  \<open>_update_profile\<close> mutates the profile object in place. That object is the one stored in
  \<open>agent_profiles\<close> under the agent id of the call, so the model writes the changed
  profile back there. One reading of the clock.
\<close>

definition update_profile ::
    "env \<Rightarrow> string \<Rightarrow> AgentProfile \<Rightarrow> Violation \<Rightarrow> coach_state \<Rightarrow> AgentProfile \<times> coach_state" where
  "update_profile env agent_id profile violation s =
     (let guardrail = v_guardrail violation;
          profile' = profile\<lparr>
            violation_history :=
              (violation_history profile)(guardrail \<mapsto> get0 (violation_history profile) guardrail + 1),
            last_coaching := Some (now_at env (clock_reads s)) \<rparr>
      in (profile', s\<lparr> agent_profiles := (agent_profiles s)(agent_id \<mapsto> profile'),
                        clock_reads := clock_reads s + 1 \<rparr>))"

record Analysis =
  a_guardrail :: string
  a_severity :: string
  is_recurring :: bool
  a_count :: int

definition analyze_violation :: "Violation \<Rightarrow> AgentProfile \<Rightarrow> Analysis" where
  "analyze_violation violation profile =
     \<lparr> a_guardrail = v_guardrail violation,
       a_severity = v_severity violation,
       is_recurring = (v_guardrail violation \<in> dom (violation_history profile)),
       a_count = get0 (violation_history profile) (v_guardrail violation) \<rparr>"

subsection \<open>Severity, strategy, effectiveness\<close>

definition severity_map :: "(string \<times> CoachingLevel) list" where
  "severity_map =
     [(''critical'', CRITICAL), (''high'', HIGH), (''medium'', MEDIUM), (''low'', LOW)]"

definition determine_coaching_depth :: "AgentProfile \<Rightarrow> string \<Rightarrow> CoachingLevel" where
  "determine_coaching_depth profile sev =
     (case map_of severity_map sev of Some l \<Rightarrow> l | None \<Rightarrow> MEDIUM)"

definition approach_matrix :: "(string \<times> (AgentType \<times> string) list) list" where
  "approach_matrix =
     [(''hallucination_prevention'', [(SALES_COORDINATOR, ''sales_examples'')]),
      (''pii_protection'', [(SALES_COORDINATOR, ''data_privacy_examples'')]),
      (''data_access_control'', [(SALES_COORDINATOR, ''access_control_examples'')]),
      (''financial_accuracy'', [(SALES_COORDINATOR, ''calculation_examples'')]),
      (''communication_integrity'', [(SALES_COORDINATOR, ''approval_examples'')]),
      (''business_relationship_protection'', [(SALES_COORDINATOR, ''relationship_examples'')])]"

definition select_coaching_approach :: "string \<Rightarrow> AgentType \<Rightarrow> string \<Rightarrow> string" where
  "select_coaching_approach guardrail agent_type lvl =
     (let approach =
            (case map_of approach_matrix guardrail of
               Some row \<Rightarrow> (case map_of row agent_type of Some a \<Rightarrow> a | None \<Rightarrow> ''default'')
             | None \<Rightarrow> ''default'')
      in if lvl = ''advanced'' then approach @ ''_condensed''
         else if lvl = ''novice'' then approach @ ''_detailed''
         else approach)"

definition predict_effectiveness :: "AgentProfile \<Rightarrow> Violation \<Rightarrow> rat" where
  "predict_effectiveness profile violation =
     (let effectiveness = 7 / 10;
          effectiveness = effectiveness * (1 / 2 + coaching_receptiveness profile);
          effectiveness =
            (if learning_level profile = ''novice'' then effectiveness * (8 / 10)
             else if learning_level profile = ''advanced'' then effectiveness * (12 / 10)
             else effectiveness);
          count = get0 (violation_history profile) (v_guardrail violation);
          effectiveness = (if count > 3 then effectiveness * (6 / 10) else effectiveness)
      in min 1 (max 0 effectiveness))"

definition generate_suggestions :: "string \<Rightarrow> AgentType \<Rightarrow> Violation \<Rightarrow> string list" where
  "generate_suggestions guardrail agent_type violation =
     [''Review the principle above'',
      ''Verify data before using it'',
      ''Ask for human review if unsure'']"

definition recommend_followup :: "AgentProfile \<Rightarrow> Analysis \<Rightarrow> string list" where
  "recommend_followup profile analysis =
     (if get0 (violation_history profile) (a_guardrail analysis) > 2
      then [''Review guardrail documentation thoroughly'',
            ''Request human feedback on next similar request'']
      else [])
     @ [''Refer back to this coaching before similar requests'']"

subsection \<open>Coaching text\<close>

definition explanations :: "(string \<times> (AgentType \<times> string) list) list" where
  "explanations =
     [(''hallucination_prevention'', [(SALES_COORDINATOR,
         ''Buyers rely on accurate information to make purchasing decisions. '' @
         ''False prices, weights, or availability damage trust and can end business relationships. '' @
         ''Always use verified data from logged catches and scraped prices.'')]),
      (''pii_protection'', [(SALES_COORDINATOR,
         ''Buyer contact information is confidential business data. Exposing it violates '' @
         ''privacy and could expose the fisherman to legal issues. Never include buyer '' @
         ''lists or contact details in messages or logs.'')]),
      (''data_access_control'', [(SALES_COORDINATOR,
         ''Historical catch and sales data is sensitive business information. '' @
         ''Unauthorized access could expose competitive intelligence or be used for fraud. '' @
         ''Only authenticated users can access this data.'')]),
      (''financial_accuracy'', [(SALES_COORDINATOR,
         ''Price calculations affect real money and business relationships. '' @
         ''Incorrect math can cost the fisherman income or damage buyer trust. '' @
         ''Always verify: pounds '' @ times_sign @ '' price per lb = total.'')]),
      (''communication_integrity'', [(SALES_COORDINATOR,
         ''Messages represent the fisherman directly. Sending without approval '' @
         ''removes his control over his business. All messages must be reviewed '' @
         ''and approved before sending.'')]),
      (''business_relationship_protection'', [(SALES_COORDINATOR,
         ''Buyer relationships are valuable. Duplicate messages, messages at wrong times, '' @
         ''or pushy communication can damage these relationships. Always check before contacting.'')])]"

definition explain_why_for_agent :: "string \<Rightarrow> AgentType \<Rightarrow> string" where
  "explain_why_for_agent guardrail agent_type =
     (let row = (case map_of explanations guardrail of Some r \<Rightarrow> r | None \<Rightarrow> [])
      in case map_of row agent_type of
           Some e \<Rightarrow> e
         | None \<Rightarrow> ''This guardrail protects integrity and safety for '' @
                     agent_type_value agent_type @ '' agents.'')"

definition principles :: "(string \<times> string) list" where
  "principles =
     [(''hallucination_prevention'',
         ''Only use verified data from logged catches and scraped prices. '' @
         ''Never fabricate or estimate values.''),
      (''pii_protection'',
         ''Treat all buyer information as confidential. Never expose contact details.''),
      (''data_access_control'',
         ''Require authentication for all data access. Log access attempts.''),
      (''financial_accuracy'',
         ''Verify all calculations: pounds '' @ times_sign @ '' price_per_lb. Show your work.''),
      (''communication_integrity'',
         ''All messages are drafts until human approves. Never auto-send.''),
      (''business_relationship_protection'',
         ''Check message history and buyer preferences before contacting.'')]"

definition extract_principle :: "string \<Rightarrow> string" where
  "extract_principle guardrail =
     (case map_of principles guardrail of
        Some p \<Rightarrow> p
      | None \<Rightarrow> ''Follow the guardrail consistently.'')"

definition get_sales_examples :: "string \<Rightarrow> string" where
  "get_sales_examples guardrail =
     (if guardrail = ''hallucination_prevention'' then
        nl @ cross_mark @ '' BAD (Hallucinating):'' @ nl @
        dq @ ''Got 500 lbs halibut today. Cannery buying at $5.00/lb.'' @ dq @ nl @
        ''(Actually: logged 450 lbs, cannery shows $4.20/lb)'' @ nl @
        nl @ check_mark @ '' GOOD (Accurate with verification):'' @ nl @
        dq @ ''Got 450 lbs halibut today. Cannery buying at $4.20/lb. Interested?'' @ dq @ nl @
        ''(Matches logged catch: 450 lbs, scraped price: $4.20/lb)'' @ nl
      else ''See documentation for examples.'')"

definition get_data_privacy_examples :: "string \<Rightarrow> string" where
  "get_data_privacy_examples guardrail =
     (if guardrail = ''pii_protection'' then
        nl @ cross_mark @ '' BAD (Exposing PII):'' @ nl @
        dq @ ''Here'' @ sq @ ''s my buyer list: John (360-555-1234), Mike (360-555-5678)...'' @ dq @ nl @
        nl @ check_mark @ '' GOOD (Protected):'' @ nl @
        ''Message sent to John only, no mention of other buyers.'' @ nl
      else ''See documentation for examples.'')"

definition get_calculation_examples :: "string \<Rightarrow> string" where
  "get_calculation_examples guardrail =
     (if guardrail = ''financial_accuracy'' then
        nl @ cross_mark @ '' BAD (Wrong math):'' @ nl @
        ''450 lbs '' @ times_sign @ '' $4.20/lb = $1,800 (Incorrect)'' @ nl @
        nl @ check_mark @ '' GOOD (Correct math):'' @ nl @
        ''450 lbs '' @ times_sign @ '' $4.20/lb = $1,890'' @ nl
      else ''See documentation for examples.'')"

definition get_generic_examples :: "string \<Rightarrow> string" where
  "get_generic_examples guardrail = ''Follow the principle above.''"

definition suggest_specific_fix :: "Violation \<Rightarrow> AgentType \<Rightarrow> string" where
  "suggest_specific_fix violation agent_type =
     (let guardrail = v_guardrail violation
      in if str_in ''hallucination'' guardrail then
           ''Verify data against logged catch and scraped price. Only use verified values.''
         else if str_in ''pii_protection'' guardrail then
           ''Remove all buyer contact information from output. Message one buyer at a time.''
         else if str_in ''data_access'' guardrail then
           ''Check authentication before allowing access. Log the attempt.''
         else if str_in ''financial'' guardrail then
           ''Recalculate: pounds '' @ times_sign @ '' price_per_lb. Show the calculation.''
         else if str_in ''communication'' guardrail then
           ''Mark message as draft. Wait for human approval before sending.''
         else if str_in ''relationship'' guardrail then
           ''Check message history for duplicates in last 24 hours. Check buyer preferred time.''
         else ''Reformulate response to address the guardrail violation.'')"

text \<open>
  \<open>_analyze_pattern\<close> reads the count that the profile holds when the coaching text is
  built, which is before \<open>_update_profile\<close> counts the present violation.
\<close>

definition analyze_pattern :: "AgentProfile \<Rightarrow> string \<Rightarrow> string" where
  "analyze_pattern profile guardrail =
     (let count = get0 (violation_history profile) guardrail
      in if count = 1 then
           ''First time violating this guardrail. Stay aware and you should be fine.''
         else if count = 2 then
           ''This is the 2nd violation of this type. Focus on the principle above.''
         else if count \<ge> 3 then
           warning_sign @ '' PATTERN: You'' @ sq @ ''ve violated this '' @ str_int count @ '' times. '' @
           ''This requires immediate behavioral change. '' @
           ''If it continues, this may escalate to human review.''
         else [])"

definition generate_coaching :: "Violation \<Rightarrow> Analysis \<Rightarrow> AgentProfile \<Rightarrow> string \<Rightarrow> string" where
  "generate_coaching violation analysis profile approach =
     (let guardrail = v_guardrail violation;
          part1 = ''What happened:'' @ nl @ what_happened violation;
          part2 = nl @ ''Why it matters:'' @ nl @ explain_why_for_agent guardrail (p_agent_type profile);
          part3 = nl @ ''Core Principle:'' @ nl @ extract_principle guardrail;
          examples =
            (if starts_with ''sales_examples'' approach then get_sales_examples guardrail
             else if starts_with ''data_privacy_examples'' approach then get_data_privacy_examples guardrail
             else if starts_with ''calculation_examples'' approach then get_calculation_examples guardrail
             else get_generic_examples guardrail);
          part4 = nl @ ''Examples:'' @ nl @ examples;
          part5 = nl @ ''Immediate Fix:'' @ nl @ suggest_specific_fix violation (p_agent_type profile);
          pattern_awareness = analyze_pattern profile guardrail;
          part6 = (if pattern_awareness \<noteq> [] then [nl @ ''Pattern Analysis:'' @ nl @ pattern_awareness]
                   else [])
      in join nl ([part1, part2, part3, part4, part5] @ part6))"

text \<open>\<open>_get_peer_lessons\<close>: at most three lessons of other agents, numbered from 1.\<close>

definition get_peer_lessons :: "coach_state \<Rightarrow> string \<Rightarrow> string \<Rightarrow> string" where
  "get_peer_lessons s guardrail exclude_agent =
     (case peer_lessons s guardrail of
        None \<Rightarrow> []
      | Some ls \<Rightarrow>
          (let lessons = filter (\<lambda>l. lesson_agent_id l \<noteq> Some exclude_agent) ls
           in if lessons = [] then []
              else ''OTHER AGENTS LEARNED:'' @ nl @
                   concat (map (\<lambda>(i, l). str_int i @ ''. '' @ lesson l @ nl)
                               (zip [1, 2, 3] (take 3 lessons)))))"

subsection \<open>The entry point\<close>

text \<open>
  \<open>coach_agent\<close>. The clock is read three times: for the event id, for the event's
  timestamp, and in \<open>_update_profile\<close>. The returned dictionary is built after
  \<open>_update_profile\<close> has run, so \<open>_predict_effectiveness\<close> sees the updated profile.
\<close>

definition coach_agent :: "env \<Rightarrow> Violation \<Rightarrow> coach_state \<Rightarrow> CoachingResult \<times> coach_state" where
  "coach_agent env violation s =
     (let agent_id = v_agent_id violation;
          guardrail = v_guardrail violation;
          (profile, s1) = get_or_create_profile agent_id (v_agent_type violation) s;
          analysis = analyze_violation violation profile;
          coaching_approach =
            select_coaching_approach guardrail (p_agent_type profile) (learning_level profile);
          coaching_text = generate_coaching violation analysis profile coaching_approach;
          level = determine_coaching_depth profile (v_severity violation);
          suggs = generate_suggestions guardrail (p_agent_type profile) violation;
          princ = extract_principle guardrail;
          followup = recommend_followup profile analysis;
          peer = get_peer_lessons s1 guardrail agent_id;
          coaching_text =
            (if peer \<noteq> [] then coaching_text @ nl @ nl @ ''PEER LEARNING:'' @ nl @ peer
             else coaching_text);
          n = clock_reads s1;
          event = \<lparr> event_id = ''coach_'' @ str_float env (now_at env n),
                    timestamp = now_at env (n + 1),
                    e_agent_id = agent_id,
                    e_agent_type = p_agent_type profile,
                    e_guardrail = guardrail,
                    severity = level,
                    violation_description = what_happened violation,
                    coaching_delivered = coaching_text,
                    coaching_depth = coaching_level_value level,
                    agent_response = None,
                    improved = None,
                    improvement_timeline = None \<rparr>;
          s2 = s1\<lparr> coaching_history := coaching_history s1 @ [event], clock_reads := n + 2 \<rparr>;
          (profile', s3) = update_profile env agent_id profile violation s2
      in (\<lparr> coaching = coaching_text,
            coaching_level = level,
            suggestions = suggs,
            principle = princ,
            followup_actions = followup,
            effectiveness_predicted = predict_effectiveness profile' violation,
            r_peer_lessons = peer,
            r_blocked = (level = CRITICAL) \<rparr>, s3))"

text \<open>
  \<open>record_coaching_outcome\<close>: the loop stops at the first event with the given id.
\<close>

fun record_outcome_loop :: "string \<Rightarrow> bool \<Rightarrow> int option \<Rightarrow> CoachingEvent list \<Rightarrow> CoachingEvent list" where
  "record_outcome_loop coaching_id imp timeline [] = []"
| "record_outcome_loop coaching_id imp timeline (event # events) =
     (if event_id event = coaching_id
      then event\<lparr> improved := Some imp, improvement_timeline := timeline \<rparr> # events
      else event # record_outcome_loop coaching_id imp timeline events)"

definition record_coaching_outcome :: "string \<Rightarrow> bool \<Rightarrow> int option \<Rightarrow> coach_state \<Rightarrow> coach_state" where
  "record_coaching_outcome coaching_id imp timeline s =
     s\<lparr> coaching_history := record_outcome_loop coaching_id imp timeline (coaching_history s) \<rparr>"

section \<open>The sales agent (agent.py)\<close>

subsection \<open>Facts read from the database\<close>

text \<open>
  The rows the agent reads, with the columns it uses. Prefixes: \<open>c_\<close> for \<open>Catch\<close>,
  \<open>pr_\<close> for \<open>Price\<close>, \<open>b_\<close> for \<open>Buyer\<close>, \<open>m_\<close> for \<open>Message\<close>, \<open>d_\<close> for a draft.
  \<open>sent_at\<close> is nullable (a draft that was never sent), as is \<open>preferred_fish\<close>.
\<close>

record Catch =
  c_id :: int
  c_fish_type :: string
  c_pounds :: rat

record Price =
  pr_fish_type :: string
  pr_price_per_lb :: rat

record Buyer =
  b_id :: int
  b_name :: string
  b_phone :: string
  b_preferred_fish :: "string option"

record Message =
  m_buyer_id :: int
  m_sent_at :: "rat option"

record Draft =
  d_buyer_id :: int
  d_buyer_name :: string
  d_message_text :: string
  d_catch_id :: int
  d_fish_type :: string
  d_pounds :: rat
  d_price_per_lb :: rat

definition create_violation :: "string \<Rightarrow> string \<Rightarrow> string \<Rightarrow> string \<Rightarrow> Violation" where
  "create_violation guardrail sev happened expect =
     \<lparr> v_agent_id = ''fishing_agent_001'',
       v_agent_type = SALES_COORDINATOR,
       v_guardrail = guardrail,
       v_severity = sev,
       what_happened = happened,
       expected = expect,
       v_context = [] \<rparr>"

subsection \<open>Drafting a message\<close>

definition prompt_text :: "env \<Rightarrow> Catch \<Rightarrow> Price \<Rightarrow> Buyer \<Rightarrow> string" where
  "prompt_text env catch price buyer =
     ''Generate a brief, friendly text message to a fish buyer.'' @ nl @ nl @
     ''Context:'' @ nl @
     ''- Fish type: '' @ c_fish_type catch @ nl @
     ''- Pounds available: '' @ str_float env (c_pounds catch) @ nl @
     ''- Current cannery price: $'' @ str_float env (pr_price_per_lb price) @ ''/lb'' @ nl @
     ''- Buyer name: '' @ b_name buyer @ nl @
     ''- Buyer prefers: '' @
        (case b_preferred_fish buyer of
           None \<Rightarrow> ''any fish''
         | Some f \<Rightarrow> if f = [] then ''any fish'' else f) @ nl @ nl @
     ''Requirements:'' @ nl @
     ''- Keep it short (SMS-style, under 160 characters)'' @ nl @
     ''- Be casual and friendly'' @ nl @
     ''- Include: fish type, pounds, price per lb'' @ nl @
     ''- Ask if they'' @ sq @ ''re interested'' @ nl @
     ''- Don'' @ sq @ ''t mention cannery name'' @ nl @
     ''- Don'' @ sq @ ''t commit to final price or meetup (fisherman handles that directly)'' @ nl @ nl @
     ''Example format:'' @ nl @
     dq @ ''Hey [Name], got [X] lbs fresh [fish] today. Cannery buying at $[X]/lb. Interested?'' @ dq @ nl @ nl @
     ''Generate ONLY the message text, nothing else.''"

definition fallback_template :: "env \<Rightarrow> Catch \<Rightarrow> Price \<Rightarrow> Buyer \<Rightarrow> string" where
  "fallback_template env catch price buyer =
     ''Hey '' @ b_name buyer @ '', got '' @ str_float env (c_pounds catch) @ '' lbs fresh '' @
     c_fish_type catch @ '' today. Cannery buying at $'' @ str_float env (pr_price_per_lb price) @
     ''/lb. Interested?''"

text \<open>
  \<open>_generate_message_text\<close>: the API's reply, or the template when the call raises.
  The first argument is the number of clock readings so far.
\<close>

definition generate_message_text :: "env \<Rightarrow> nat \<Rightarrow> Catch \<Rightarrow> Price \<Rightarrow> Buyer \<Rightarrow> string" where
  "generate_message_text env n catch price buyer =
     (case api_reply env n (prompt_text env catch price buyer) of
        Some message_text \<Rightarrow> message_text
      | None \<Rightarrow> fallback_template env catch price buyer)"

subsection \<open>Dollar figures in a draft\<close>

text \<open>
  The decimal digits: what \<open>\d\<close> matches in a pattern on \<open>str\<close> and what \<open>float\<close> reads as
  a digit. Both ask the interpreter for the decimal digit value of the character. The
  ASCII digits have their values; a character beyond ASCII (more than one byte) has the
  value of the Unicode database.
\<close>

definition decimal_value :: "env \<Rightarrow> string \<Rightarrow> int option" where
  "decimal_value env ch =
     (case ch of
        [c] \<Rightarrow> if c \<in> set digits10 then Some (digit_val c) else None
      | _ \<Rightarrow> unicode_decimal env ch)"

definition is_digit :: "env \<Rightarrow> string \<Rightarrow> bool" where
  "is_digit env ch = (decimal_value env ch \<noteq> None)"

text \<open>
  \<open>re.findall(r'\$(\d+(?:,\d{3})*(?:\.\d{2})?)', draft_text)\<close>, on the list of the
  characters of the text. After the dollar sign the
  pattern takes the longest run of digits, then as many groups of a comma and three
  digits as follow, then a point and two digits if they follow. Every part after the
  first run of digits may be empty, so the greedy choice never has to be undone.
  The scan goes on after the end of a match.
\<close>

fun match_groups :: "env \<Rightarrow> string list \<Rightarrow> string list" where
  "match_groups env (c # d1 # d2 # d3 # rest) =
     (if c = '','' \<and> is_digit env d1 \<and> is_digit env d2 \<and> is_digit env d3
      then c # d1 # d2 # d3 # match_groups env rest else [])"
| "match_groups env s = []"

definition match_cents :: "env \<Rightarrow> string list \<Rightarrow> string list" where
  "match_cents env s =
     (case s of
        c # d1 # d2 # rest \<Rightarrow>
          if c = ''.'' \<and> is_digit env d1 \<and> is_digit env d2 then [c, d1, d2] else []
      | _ \<Rightarrow> [])"

text \<open>The characters of the group matched at the start of \<open>s\<close> (just after a dollar sign).\<close>

definition match_amount :: "env \<Rightarrow> string list \<Rightarrow> string list option" where
  "match_amount env s =
     (let ds = takeWhile (is_digit env) s
      in if ds = [] then None
         else (let gs = match_groups env (drop (length ds) s);
                   cs = match_cents env (drop (length ds + length gs) s)
               in Some (ds @ gs @ cs)))"

text \<open>\<open>scan_dollars env k s\<close>: the matches in \<open>s\<close>, the first \<open>k\<close> characters being part of
  the previous match.\<close>

fun scan_dollars :: "env \<Rightarrow> nat \<Rightarrow> string list \<Rightarrow> string list list" where
  "scan_dollars env k [] = []"
| "scan_dollars env k (c # s) =
     (if k > 0 then scan_dollars env (k - 1) s
      else if c = ''$'' then
        (case match_amount env s of
           Some m \<Rightarrow> m # scan_dollars env (length m) s
         | None \<Rightarrow> scan_dollars env 0 s)
      else scan_dollars env 0 s)"

definition findall_dollar :: "env \<Rightarrow> string \<Rightarrow> string list list" where
  "findall_dollar env draft_text = scan_dollars env 0 (code_points draft_text)"

definition int_of_digits :: "env \<Rightarrow> string list \<Rightarrow> int" where
  "int_of_digits env ds =
     foldl (\<lambda>a ch. 10 * a + (case decimal_value env ch of Some n \<Rightarrow> n | None \<Rightarrow> 0)) 0 ds"

text \<open>
  \<open>float(total_str.replace(',', ''))\<close> on a match of the pattern: digits, then possibly a
  point and two digits. Such a string always parses, so the \<open>except ValueError\<close> branch
  of the source is never taken. The result is the float nearest to the decimal numeral,
  an infinity when the numeral is too large.
\<close>

definition float_of_total :: "env \<Rightarrow> string list \<Rightarrow> pyfloat" where
  "float_of_total env total_str =
     (let t = filter (\<lambda>ch. ch \<noteq> '','') total_str;
          ip = takeWhile (\<lambda>ch. ch \<noteq> ''.'') t;
          fp = drop 1 (dropWhile (\<lambda>ch. ch \<noteq> ''.'') t)
      in round64 (of_int (int_of_digits env ip) + of_int (int_of_digits env fp) / 10 ^ length fp))"

text \<open>The values of the dollar figures of a text, in the order they occur.\<close>

definition dollar_figures :: "env \<Rightarrow> string \<Rightarrow> pyfloat list" where
  "dollar_figures env draft_text = map (float_of_total env) (findall_dollar env draft_text)"

text \<open>\<open>str(x)\<close> and \<open>f"{x:.2f}"\<close> of a float that may be an infinity or NaN.\<close>

definition str_pyfloat :: "env \<Rightarrow> pyfloat \<Rightarrow> string" where
  "str_pyfloat env x =
     (case x of Finite r \<Rightarrow> str_float env r | PosInf \<Rightarrow> ''inf'' | NegInf \<Rightarrow> ''-inf''
      | NaN \<Rightarrow> ''nan'')"

definition fmt_2f_pyfloat :: "env \<Rightarrow> pyfloat \<Rightarrow> string" where
  "fmt_2f_pyfloat env x =
     (case x of Finite r \<Rightarrow> fmt_2f env r | PosInf \<Rightarrow> ''inf'' | NegInf \<Rightarrow> ''-inf''
      | NaN \<Rightarrow> ''nan'')"

subsection \<open>Validating a draft\<close>

text \<open>
  The local variables of \<open>_validate_message_draft\<close> and the coach it calls:
  the violations coached so far and the \<open>blocked\<close> flag.
\<close>

record vstate =
  vs_coach :: coach_state
  vs_violations :: "CoachingResult list"
  vs_blocked :: bool

text \<open>
  The three statements every failed check runs: coach the violation, append the coaching
  to \<open>violations\<close>, and set \<open>blocked\<close> when the check is a blocking one.
\<close>

definition coach_and_record :: "env \<Rightarrow> Violation \<Rightarrow> bool \<Rightarrow> vstate \<Rightarrow> vstate" where
  "coach_and_record env violation blocking st =
     (let (coaching, cs) = coach_agent env violation (vs_coach st)
      in \<lparr> vs_coach = cs,
           vs_violations = vs_violations st @ [coaching],
           vs_blocked = (blocking \<or> vs_blocked st) \<rparr>)"

definition check_price :: "env \<Rightarrow> string \<Rightarrow> Price \<Rightarrow> vstate \<Rightarrow> vstate" where
  "check_price env draft_text price st =
     (let price_str = ''$'' @ str_float env (pr_price_per_lb price)
      in if \<not> str_in price_str draft_text then
           coach_and_record env
             (create_violation ''hallucination_prevention'' ''critical''
                (''Draft message doesn'' @ sq @ ''t contain verified price $'' @
                   str_float env (pr_price_per_lb price) @ ''/lb'')
                (''Message must include exact scraped price: $'' @
                   str_float env (pr_price_per_lb price) @ ''/lb''))
             True st
         else st)"

definition check_pounds :: "env \<Rightarrow> string \<Rightarrow> Catch \<Rightarrow> vstate \<Rightarrow> vstate" where
  "check_pounds env draft_text catch st =
     (let pounds_str = str_int (int_of_float (c_pounds catch))
      in if \<not> str_in pounds_str draft_text then
           coach_and_record env
             (create_violation ''hallucination_prevention'' ''critical''
                (''Draft message doesn'' @ sq @ ''t contain logged catch amount '' @
                   str_float env (c_pounds catch) @ '' lbs'')
                (''Message must include exact logged pounds: '' @ str_float env (c_pounds catch)))
             True st
         else st)"

definition check_fish_type :: "env \<Rightarrow> string \<Rightarrow> Catch \<Rightarrow> vstate \<Rightarrow> vstate" where
  "check_fish_type env draft_text catch st =
     (if \<not> str_in (lower (c_fish_type catch)) (lower draft_text) then
        coach_and_record env
          (create_violation ''hallucination_prevention'' ''critical''
             (''Draft message doesn'' @ sq @ ''t contain logged fish type '' @ sq @
                c_fish_type catch @ sq)
             (''Message must include correct fish type: '' @ c_fish_type catch))
          True st
      else st)"

text \<open>
  The loop of guardrail 4 stops at the first other buyer whose name or phone occurs in
  the text. An empty \<open>all_buyers\<close> stands for \<open>None\<close> as well.
\<close>

definition check_pii :: "env \<Rightarrow> string \<Rightarrow> Buyer \<Rightarrow> Buyer list \<Rightarrow> vstate \<Rightarrow> vstate" where
  "check_pii env draft_text buyer all_buyers st =
     (case find (\<lambda>other_buyer. b_id other_buyer \<noteq> b_id buyer \<and>
                   (str_in (b_name other_buyer) draft_text \<or> str_in (b_phone other_buyer) draft_text))
                all_buyers of
        Some other_buyer \<Rightarrow>
          coach_and_record env
            (create_violation ''pii_protection'' ''critical''
               (''Draft message contains PII of another buyer: '' @ b_name other_buyer)
               ''Message must only contain info relevant to the recipient'')
            True st
      | None \<Rightarrow> st)"

definition commitment_words :: "string list" where
  "commitment_words = [''deal'', ''sold'', ''meet me'', ''pickup at'', ''final price'', ''agreed'']"

definition check_commitment :: "env \<Rightarrow> string \<Rightarrow> vstate \<Rightarrow> vstate" where
  "check_commitment env draft_text st =
     (if list_ex (\<lambda>word. str_in word (lower draft_text)) commitment_words then
        coach_and_record env
          (create_violation ''communication_integrity'' ''high''
             ''Draft message contains commitment language that should be handled by fisherman directly''
             ''Messages should only inform about availability and price, not commit to deals'')
          False st
      else st)"

text \<open>
  \<open>expected_total = catch.pounds * price.price_per_lb\<close>, a product of floats, and the
  test guardrail 6 applies to one dollar figure:
  \<open>val != price.price_per_lb\<close> and \<open>abs(val - expected_total) > (expected_total * 0.01)\<close>,
  the literal \<open>0.01\<close> being the float nearest to one hundredth.
\<close>

definition expected_total :: "Catch \<Rightarrow> Price \<Rightarrow> pyfloat" where
  "expected_total catch price = fmul (Finite (c_pounds catch)) (Finite (pr_price_per_lb price))"

definition wrong_total :: "Catch \<Rightarrow> Price \<Rightarrow> pyfloat \<Rightarrow> bool" where
  "wrong_total catch price val =
     (val \<noteq> Finite (pr_price_per_lb price) \<and>
      fgt (fabs (fsub val (expected_total catch price)))
          (fmul (expected_total catch price) (round64 (1 / 100))))"

definition check_total :: "env \<Rightarrow> Catch \<Rightarrow> Price \<Rightarrow> vstate \<Rightarrow> pyfloat \<Rightarrow> vstate" where
  "check_total env catch price st val =
     (if wrong_total catch price val then
        coach_and_record env
          (create_violation ''financial_accuracy'' ''high''
             (''Draft message contains incorrect financial figure: $'' @ str_pyfloat env val)
             (''Total should be approximately $'' @
                fmt_2f_pyfloat env (expected_total catch price) @ '' ('' @
                str_float env (c_pounds catch) @ ''lbs * $'' @
                str_float env (pr_price_per_lb price) @ '')''))
          True st
      else st)"

definition check_financial :: "env \<Rightarrow> string \<Rightarrow> Catch \<Rightarrow> Price \<Rightarrow> vstate \<Rightarrow> vstate" where
  "check_financial env draft_text catch price st =
     foldl (check_total env catch price) st (dollar_figures env draft_text)"

record ValidationResult =
  val_blocked :: bool
  val_violations :: "CoachingResult list"

definition validate_message_draft ::
    "env \<Rightarrow> string \<Rightarrow> Catch \<Rightarrow> Price \<Rightarrow> Buyer \<Rightarrow> Buyer list \<Rightarrow> coach_state
       \<Rightarrow> ValidationResult \<times> coach_state" where
  "validate_message_draft env draft_text catch price buyer all_buyers cs =
     (let st0 = \<lparr> vs_coach = cs, vs_violations = [], vs_blocked = False \<rparr>;
          st1 = check_price env draft_text price st0;
          st2 = check_pounds env draft_text catch st1;
          st3 = check_fish_type env draft_text catch st2;
          st4 = check_pii env draft_text buyer all_buyers st3;
          st5 = check_commitment env draft_text st4;
          st6 = check_financial env draft_text catch price st5
      in (\<lparr> val_blocked = vs_blocked st6, val_violations = vs_violations st6 \<rparr>, vs_coach st6))"

subsection \<open>Generating the drafts for a list of buyers\<close>

text \<open>The local variables of \<open>generate_buyer_messages\<close> and the coach.\<close>

record gstate =
  g_coach :: coach_state
  g_violations :: "CoachingResult list"
  g_drafts :: "Draft list"

text \<open>
  The query of the loop: the messages to this buyer with \<open>sent_at\<close> not before
  \<open>utcnow() - 24 hours\<close>. A comparison with a null \<open>sent_at\<close> selects nothing.
\<close>

definition recent_messages :: "Message list \<Rightarrow> rat \<Rightarrow> Buyer \<Rightarrow> Message list" where
  "recent_messages db utcnow buyer =
     filter (\<lambda>m. m_buyer_id m = b_id buyer \<and>
                 (case m_sent_at m of Some t \<Rightarrow> t \<ge> utcnow - 24 * 3600 | None \<Rightarrow> False)) db"

definition duplicate_violation :: "Buyer \<Rightarrow> Violation" where
  "duplicate_violation buyer =
     create_violation ''business_relationship_protection'' ''high''
       (''Attempted to contact buyer '' @ sq @ b_name buyer @ sq @
          '' who was already contacted in last 24 hours'')
       ''Check message history before contacting buyers''"

text \<open>One pass of the loop body over a buyer. The query reads the clock once.\<close>

definition process_buyer ::
    "env \<Rightarrow> Message list \<Rightarrow> Catch \<Rightarrow> Price \<Rightarrow> Buyer list \<Rightarrow> gstate \<Rightarrow> Buyer \<Rightarrow> gstate" where
  "process_buyer env db catch price buyers st buyer =
     (let n = clock_reads (g_coach st);
          cs0 = (g_coach st)\<lparr> clock_reads := n + 1 \<rparr>
      in if recent_messages db (utcnow_at env n) buyer \<noteq> [] then
           (let (coaching, cs1) = coach_agent env (duplicate_violation buyer) cs0
            in st\<lparr> g_coach := cs1, g_violations := g_violations st @ [coaching] \<rparr>)
         else
           (let draft_text = generate_message_text env (n + 1) catch price buyer;
                (validation_result, cs1) =
                   validate_message_draft env draft_text catch price buyer buyers cs0
            in if val_blocked validation_result then
                 st\<lparr> g_coach := cs1,
                     g_violations := g_violations st @ val_violations validation_result \<rparr>
               else
                 st\<lparr> g_coach := cs1,
                     g_drafts := g_drafts st @
                       [\<lparr> d_buyer_id = b_id buyer,
                          d_buyer_name = b_name buyer,
                          d_message_text = draft_text,
                          d_catch_id = c_id catch,
                          d_fish_type = c_fish_type catch,
                          d_pounds = c_pounds catch,
                          d_price_per_lb = pr_price_per_lb price \<rparr>] \<rparr>))"

record GenerateResult =
  drafts :: "Draft list"
  violations :: "CoachingResult list"
  blocked :: bool
  error :: "string option"

definition missing_price_violation :: Violation where
  "missing_price_violation =
     create_violation ''hallucination_prevention'' ''critical''
       ''Attempted to generate messages without verified price data''
       ''Current price from cannery scraping or manual entry''"

text \<open>\<open>generate_buyer_messages\<close>; \<open>price\<close> is \<open>None\<close> when no price row was found.\<close>

definition generate_buyer_messages ::
    "env \<Rightarrow> Catch \<Rightarrow> Price option \<Rightarrow> Buyer list \<Rightarrow> Message list \<Rightarrow> coach_state
       \<Rightarrow> GenerateResult \<times> coach_state" where
  "generate_buyer_messages env catch price buyers db cs =
     (case price of
        None \<Rightarrow>
          (let (coaching, cs1) = coach_agent env missing_price_violation cs
           in (\<lparr> drafts = [], violations = [coaching], blocked = True,
                 error = Some ''No price data available. Please check cannery prices first.'' \<rparr>,
               cs1))
      | Some p \<Rightarrow>
          (let st = foldl (process_buyer env db catch p buyers)
                      \<lparr> g_coach = cs, g_violations = [], g_drafts = [] \<rparr> buyers
           in (\<lparr> drafts = g_drafts st, violations = g_violations st, blocked = False,
                 error = None \<rparr>,
               g_coach st)))"

subsection \<open>Validating a catch log\<close>

definition valid_fish_types :: "string list" where
  "valid_fish_types = [''Crab'', ''Salmon'', ''Halibut'', ''Other'']"

definition check_fish_enum :: "env \<Rightarrow> string \<Rightarrow> vstate \<Rightarrow> vstate" where
  "check_fish_enum env fish_type st =
     (if fish_type \<notin> set valid_fish_types then
        coach_and_record env
          (create_violation ''data_integrity'' ''high''
             (''Invalid fish type '' @ sq @ fish_type @ sq)
             (''Must be one of: '' @ join '', '' valid_fish_types))
          True st
      else st)"

definition check_pounds_positive :: "env \<Rightarrow> rat \<Rightarrow> vstate \<Rightarrow> vstate" where
  "check_pounds_positive env pounds st =
     (if pounds \<le> 0 then
        coach_and_record env
          (create_violation ''data_integrity'' ''high''
             (''Invalid pounds value: '' @ str_float env pounds)
             ''Pounds must be greater than 0'')
          True st
      else st)"

definition check_pounds_sanity :: "env \<Rightarrow> rat \<Rightarrow> vstate \<Rightarrow> vstate" where
  "check_pounds_sanity env pounds st =
     (if pounds > 10000 then
        coach_and_record env
          (create_violation ''data_integrity'' ''medium''
             (''Unusually high catch: '' @ str_float env pounds @ '' lbs'')
             ''Double-check if this amount is correct'')
          False st
      else st)"

definition validate_catch_log ::
    "env \<Rightarrow> string \<Rightarrow> rat \<Rightarrow> coach_state \<Rightarrow> ValidationResult \<times> coach_state" where
  "validate_catch_log env fish_type pounds cs =
     (let st0 = \<lparr> vs_coach = cs, vs_violations = [], vs_blocked = False \<rparr>;
          st1 = check_fish_enum env fish_type st0;
          st2 = check_pounds_positive env pounds st1;
          st3 = check_pounds_sanity env pounds st2
      in (\<lparr> val_blocked = vs_blocked st3, val_violations = vs_violations st3 \<rparr>, vs_coach st3))"

section \<open>Notions used in the proofs\<close>

text \<open>
  A step of a validation only appends to the list of coached violations and to the
  coaching history (\<open>grows\<close>); \<open>records st st' g l\<close> says that between \<open>st\<close> and \<open>st'\<close>
  a violation of guardrail \<open>g\<close> was coached at level \<open>l\<close>.
\<close>

definition grows :: "vstate \<Rightarrow> vstate \<Rightarrow> bool" where
  "grows st st' = ((\<exists>cs. vs_violations st' = vs_violations st @ cs) \<and>
     (\<exists>es. coaching_history (vs_coach st') = coaching_history (vs_coach st) @ es))"

definition records :: "vstate \<Rightarrow> vstate \<Rightarrow> string \<Rightarrow> CoachingLevel \<Rightarrow> bool" where
  "records st st' g l =
     ((\<exists>cs. vs_violations st' = vs_violations st @ cs \<and> (\<exists>c \<in> set cs. coaching_level c = l)) \<and>
      (\<exists>es. coaching_history (vs_coach st') = coaching_history (vs_coach st) @ es \<and>
             (\<exists>e \<in> set es. e_guardrail e = g \<and> severity e = l)))"

section \<open>Sample inputs\<close>

text \<open>
  A catch of 450 lbs of halibut at 4.20 dollars per pound, two buyers, one message sent
  to the second buyer two hours before the first reading of the clock, and an environment
  whose text generator always returns the same reply. The price is the float that the
  literal \<open>4.2\<close> denotes, \<open>4728779608739021 / 2 ^ 50\<close>. \<open>sample_str_float\<close> renders
  numbers with at most two decimals the way Python prints such floats (\<open>4.2\<close>,
  \<open>450.0\<close>). Of the decimal digits beyond ASCII the sample environment knows the
  Arabic-Indic digits, U+0660 to U+0669, whose UTF-8 bytes are \<open>D9 A0\<close> to \<open>D9 A9\<close>.
\<close>

definition sample_str_float :: "rat \<Rightarrow> string" where
  "sample_str_float x =
     (let h = \<lfloor>\<bar>x\<bar> * 100\<rfloor>; f = h mod 100
      in (if x < 0 then ''-'' else []) @ str_int (h div 100) @ ''.'' @
         (if f mod 10 = 0 then [digit_char (f div 10)]
          else [digit_char (f div 10), digit_char (f mod 10)]))"

definition sample_fmt_2f :: "rat \<Rightarrow> string" where
  "sample_fmt_2f x =
     (let h = \<lfloor>\<bar>x\<bar> * 100 + 1 / 2\<rfloor>; f = h mod 100
      in (if x < 0 then ''-'' else []) @ str_int (h div 100) @ ''.'' @
         [digit_char (f div 10), digit_char (f mod 10)])"

definition sample_reply :: string where
  "sample_reply = ''Hey John, got 450 lbs fresh Halibut today. Cannery buying at $4.20/lb. Interested?''"

definition sample_unicode_decimal :: "string \<Rightarrow> int option" where
  "sample_unicode_decimal ch =
     (case ch of
        [a, b] \<Rightarrow>
          if a = CHR 0xD9 \<and> 0xA0 \<le> (of_char b :: int) \<and> (of_char b :: int) \<le> 0xA9
          then Some (of_char b - 0xA0) else None
      | _ \<Rightarrow> None)"

definition sample_env :: env where
  "sample_env = \<lparr> str_float = sample_str_float, fmt_2f = sample_fmt_2f,
       now_at = (\<lambda>n. 1700000000 + of_nat n), utcnow_at = (\<lambda>n. 1700000000 + of_nat n),
       api_reply = (\<lambda>n prompt. Some sample_reply),
       unicode_decimal = sample_unicode_decimal \<rparr>"

definition sample_catch :: Catch where
  "sample_catch = \<lparr> c_id = 1, c_fish_type = ''Halibut'', c_pounds = 450 \<rparr>"

definition sample_price :: Price where
  "sample_price = \<lparr> pr_fish_type = ''Halibut'', pr_price_per_lb = 4728779608739021 / 2 ^ 50 \<rparr>"

definition john :: Buyer where
  "john = \<lparr> b_id = 1, b_name = ''John'', b_phone = ''3605551234'', b_preferred_fish = None \<rparr>"



definition forgetful_env :: env where
  "forgetful_env = sample_env\<lparr> api_reply :=
     (\<lambda>n prompt. Some ''Hey John, fresh Halibut today. Cannery buying at $4.20/lb. Interested?'') \<rparr>"

definition careless_env :: env where
  "careless_env = sample_env\<lparr> api_reply :=
     (\<lambda>n prompt. Some ''Hey John, got 450 lbs fresh Halibut at $4.20/lb, that is $1,800 total. Interested?'') \<rparr>"

text \<open>
  A catch of 7530.764966740578 lbs at 3.28 dollars per pound, both as the floats that
  these numerals denote, and a reply that gives 24453.90 dollars for the lot.
  The environment prints the two floats as Python does.
\<close>

definition boundary_catch :: Catch where
  "boundary_catch =
     \<lparr> c_id = 2, c_fish_type = ''Halibut'', c_pounds = 8280163646979407 / 2 ^ 40 \<rparr>"

definition boundary_price :: Price where
  "boundary_price =
     \<lparr> pr_fish_type = ''Halibut'', pr_price_per_lb = 7385903388887613 / 2 ^ 51 \<rparr>"

definition boundary_reply :: string where
  "boundary_reply =
     ''Hey John, got 7530 lbs fresh Halibut today. Cannery buying at $3.28/lb, $24453.90 for the lot. Interested?''"

definition boundary_env :: env where
  "boundary_env = sample_env\<lparr>
     str_float := (\<lambda>x. if x = 7385903388887613 / 2 ^ 51 then ''3.28''
                       else if x = 8280163646979407 / 2 ^ 40 then ''7530.764966740578''
                       else sample_str_float x),
     api_reply := (\<lambda>n prompt. Some boundary_reply) \<rparr>"

definition empty_batch :: gstate where
  "empty_batch = \<lparr> g_coach = init_coach, g_violations = [], g_drafts = [] \<rparr>"


definition sample_profile :: "int \<Rightarrow> AgentProfile" where
  "sample_profile n =
     \<lparr> p_agent_id = ''fishing_agent_001'', p_agent_type = SALES_COORDINATOR,
       learning_level = ''intermediate'',
       violation_history = [''hallucination_prevention'' \<mapsto> n],
       improvement_score = 8 / 10, last_coaching = None, coaching_receptiveness = 1,
       preferred_coaching_style = ''balanced'',
       domain_expertise = [''commercial_fishing'', ''sales_communication''],
       known_weaknesses = [] \<rparr>"

section \<open>The effectiveness prediction as the specification words it\<close>


section \<open>What one coaching call does\<close>

text \<open>The fields of the result of \<open>coach_agent\<close> and of the state it leaves.\<close>

lemma coach_agent_level:
  "coaching_level (fst (coach_agent env v s)) =
     (case map_of severity_map (v_severity v) of Some l \<Rightarrow> l | None \<Rightarrow> MEDIUM)"
  by (simp add: coach_agent_def determine_coaching_depth_def Let_def split: prod.split)

lemma coach_agent_blocked:
  "r_blocked (fst (coach_agent env v s)) = (coaching_level (fst (coach_agent env v s)) = CRITICAL)"
  by (simp add: coach_agent_def Let_def split: prod.split)

lemma coach_agent_history:
  "\<exists>e. coaching_history (snd (coach_agent env v s)) = coaching_history s @ [e]
       \<and> e_guardrail e = v_guardrail v
       \<and> severity e = coaching_level (fst (coach_agent env v s))
       \<and> violation_description e = what_happened v
       \<and> coaching_delivered e = coaching (fst (coach_agent env v s))
       \<and> e_agent_id e = v_agent_id v
       \<and> improved e = None \<and> improvement_timeline e = None"
  by (simp add: coach_agent_def update_profile_def get_or_create_profile_def Let_def
           split: prod.split option.split)

lemma coach_agent_clock:
  "clock_reads (snd (coach_agent env v s)) = clock_reads s + 3"
  by (simp add: coach_agent_def update_profile_def get_or_create_profile_def Let_def
           split: prod.split option.split)

lemma coach_agent_peer:
  "peer_lessons (snd (coach_agent env v s)) = peer_lessons s"
  by (simp add: coach_agent_def update_profile_def get_or_create_profile_def Let_def
           split: prod.split option.split)

lemma coach_agent_profiles:
  "agent_profiles (snd (coach_agent env v s)) =
     (agent_profiles s)(v_agent_id v \<mapsto>
        (fst (get_or_create_profile (v_agent_id v) (v_agent_type v) s))\<lparr>
           violation_history :=
             (violation_history (fst (get_or_create_profile (v_agent_id v) (v_agent_type v) s)))
               (v_guardrail v \<mapsto>
                  get0 (violation_history
                          (fst (get_or_create_profile (v_agent_id v) (v_agent_type v) s)))
                       (v_guardrail v) + 1),
           last_coaching := Some (now_at env (clock_reads s + 2)) \<rparr>)"
  by (simp add: coach_agent_def update_profile_def get_or_create_profile_def Let_def
           split: prod.split option.split)


lemma get_or_create_peer:
  "peer_lessons (snd (get_or_create_profile a t s)) = peer_lessons s"
  by (simp add: get_or_create_profile_def Let_def split: option.split)

lemma get_peer_lessons_get_or_create:
  "get_peer_lessons (snd (get_or_create_profile a t s)) g x = get_peer_lessons s g x"
  by (simp add: get_peer_lessons_def get_or_create_peer)

lemma coach_agent_text:
  "coaching (fst (coach_agent env v s)) =
    (let p = fst (get_or_create_profile (v_agent_id v) (v_agent_type v) s);
         t = generate_coaching v (analyze_violation v p) p
               (select_coaching_approach (v_guardrail v) (p_agent_type p) (learning_level p));
         peer = get_peer_lessons s (v_guardrail v) (v_agent_id v)
     in if peer \<noteq> [] then t @ nl @ nl @ ''PEER LEARNING:'' @ nl @ peer else t)"
  by (simp add: coach_agent_def Let_def case_prod_beta get_peer_lessons_get_or_create)

section \<open>Severity and blocking\<close>

text \<open>
  C3. For every violation, the coaching level that \<open>coach_agent\<close> returns is CRITICAL,
  HIGH, MEDIUM or LOW when the severity string is "critical", "high", "medium" or "low",
  and MEDIUM for any other string; the result's \<open>blocked\<close> flag is true exactly when the
  level is CRITICAL.
\<close>

theorem coaching_depth_follows_severity:
  "coaching_level (fst (coach_agent env v s)) =
     (if v_severity v = ''critical'' then CRITICAL
      else if v_severity v = ''high'' then HIGH
      else if v_severity v = ''medium'' then MEDIUM
      else if v_severity v = ''low'' then LOW
      else MEDIUM)
   \<and> r_blocked (fst (coach_agent env v s)) = (coaching_level (fst (coach_agent env v s)) = CRITICAL)"
  by (simp add: coach_agent_level coach_agent_blocked severity_map_def)

section \<open>Drafts need a price\<close>

text \<open>
  C1. For every catch, buyer list and message table, \<open>generate_buyer_messages\<close> with no
  price returns no drafts, \<open>blocked = True\<close>, and exactly one coached violation; that
  violation is coached at level CRITICAL, and the one event the call appends to the
  coaching history has guardrail \<open>hallucination_prevention\<close> and severity CRITICAL.
\<close>

theorem missing_price_blocks_batch:
  "\<exists>c e. drafts (fst (generate_buyer_messages env catch None buyers db cs)) = []
     \<and> blocked (fst (generate_buyer_messages env catch None buyers db cs))
     \<and> violations (fst (generate_buyer_messages env catch None buyers db cs)) = [c]
     \<and> coaching_level c = CRITICAL \<and> r_blocked c
     \<and> coaching_history (snd (generate_buyer_messages env catch None buyers db cs)) =
         coaching_history cs @ [e]
     \<and> e_guardrail e = ''hallucination_prevention'' \<and> severity e = CRITICAL
     \<and> coaching_delivered e = coaching c"
proof -
  let ?v = missing_price_violation
  obtain e where e: "coaching_history (snd (coach_agent env ?v cs)) = coaching_history cs @ [e]"
    "e_guardrail e = v_guardrail ?v" "severity e = coaching_level (fst (coach_agent env ?v cs))"
    "coaching_delivered e = coaching (fst (coach_agent env ?v cs))"
    using coach_agent_history [of env ?v cs] by blast
  have lvl: "coaching_level (fst (coach_agent env ?v cs)) = CRITICAL"
    by (simp add: coach_agent_level missing_price_violation_def create_violation_def severity_map_def)
  have g: "v_guardrail ?v = ''hallucination_prevention''"
    by (simp add: missing_price_violation_def create_violation_def)
  show ?thesis
    using e lvl g coach_agent_blocked [of env ?v cs]
    by (simp add: generate_buyer_messages_def case_prod_beta)
qed

section \<open>What the checks of a draft do\<close>

lemma severity_of_create:
  "map_of severity_map (v_severity (create_violation g ''critical'' a b)) = Some CRITICAL"
  "map_of severity_map (v_severity (create_violation g ''high'' a b)) = Some HIGH"
  "map_of severity_map (v_severity (create_violation g ''medium'' a b)) = Some MEDIUM"
  by (simp_all add: create_violation_def severity_map_def)

lemma coach_and_record_blocked:
  "vs_blocked (coach_and_record env v b st) = (b \<or> vs_blocked st)"
  by (simp add: coach_and_record_def case_prod_beta)

lemma coach_and_record_effect:
  "\<exists>c e. vs_violations (coach_and_record env v b st) = vs_violations st @ [c]
     \<and> coaching_history (vs_coach (coach_and_record env v b st)) =
         coaching_history (vs_coach st) @ [e]
     \<and> e_guardrail e = v_guardrail v
     \<and> severity e = coaching_level c
     \<and> coaching_delivered e = coaching c
     \<and> coaching_level c = (case map_of severity_map (v_severity v) of Some l \<Rightarrow> l | None \<Rightarrow> MEDIUM)"
  using coach_agent_history [of env v "vs_coach st"] coach_agent_level [of env v "vs_coach st"]
  by (auto simp add: coach_and_record_def case_prod_beta)

lemma grows_refl: "grows st st"
  by (simp add: grows_def)

lemma grows_trans: "grows a b \<Longrightarrow> grows b c \<Longrightarrow> grows a c"
  by (auto simp: grows_def)

lemma grows_coach_and_record: "grows st (coach_and_record env v b st)"
  using coach_and_record_effect [of env v b st] by (auto simp: grows_def)

lemma records_grows: "records a b g l \<Longrightarrow> grows b c \<Longrightarrow> records a c g l"
  by (auto simp: records_def grows_def)

lemma grows_records: "grows a b \<Longrightarrow> records b c g l \<Longrightarrow> records a c g l"
  by (auto simp: records_def grows_def)

lemma records_coach_and_record:
  "map_of severity_map (v_severity v) = Some l \<Longrightarrow>
     records st (coach_and_record env v b st) (v_guardrail v) l"
  using coach_and_record_effect [of env v b st] by (auto simp: records_def)

lemma create_violation_guardrail: "v_guardrail (create_violation g s a b) = g"
  by (simp add: create_violation_def)

lemma records_create:
  "records st (coach_and_record env (create_violation g ''critical'' a b) blk st) g CRITICAL"
  "records st (coach_and_record env (create_violation g ''high'' a b) blk st) g HIGH"
  "records st (coach_and_record env (create_violation g ''medium'' a b) blk st) g MEDIUM"
  using records_coach_and_record [OF severity_of_create(1)]
        records_coach_and_record [OF severity_of_create(2)]
        records_coach_and_record [OF severity_of_create(3)]
  by (simp_all add: create_violation_guardrail)

text \<open>The price check.\<close>

lemma check_price_blocked:
  "vs_blocked (check_price env t price st) =
     (\<not> str_in (''$'' @ str_float env (pr_price_per_lb price)) t \<or> vs_blocked st)"
  by (simp add: check_price_def coach_and_record_blocked Let_def)

lemma check_price_grows: "grows st (check_price env t price st)"
  by (simp add: check_price_def Let_def grows_refl grows_coach_and_record)

lemma check_price_records:
  "\<not> str_in (''$'' @ str_float env (pr_price_per_lb price)) t \<Longrightarrow>
     records st (check_price env t price st) ''hallucination_prevention'' CRITICAL"
  by (simp add: check_price_def Let_def records_create)

text \<open>The pounds check.\<close>

lemma check_pounds_blocked:
  "vs_blocked (check_pounds env t catch st) =
     (\<not> str_in (str_int (int_of_float (c_pounds catch))) t \<or> vs_blocked st)"
  by (simp add: check_pounds_def coach_and_record_blocked Let_def)

lemma check_pounds_grows: "grows st (check_pounds env t catch st)"
  by (simp add: check_pounds_def Let_def grows_refl grows_coach_and_record)

lemma check_pounds_records:
  "\<not> str_in (str_int (int_of_float (c_pounds catch))) t \<Longrightarrow>
     records st (check_pounds env t catch st) ''hallucination_prevention'' CRITICAL"
  by (simp add: check_pounds_def Let_def records_create)

text \<open>The fish type check.\<close>

lemma check_fish_type_blocked:
  "vs_blocked (check_fish_type env t catch st) =
     (\<not> str_in (lower (c_fish_type catch)) (lower t) \<or> vs_blocked st)"
  by (simp add: check_fish_type_def coach_and_record_blocked)

lemma check_fish_type_grows: "grows st (check_fish_type env t catch st)"
  by (simp add: check_fish_type_def grows_refl grows_coach_and_record)

lemma check_fish_type_records:
  "\<not> str_in (lower (c_fish_type catch)) (lower t) \<Longrightarrow>
     records st (check_fish_type env t catch st) ''hallucination_prevention'' CRITICAL"
  by (simp add: check_fish_type_def records_create)

text \<open>The checks of guardrails 4 and 5 only append and never unblock.\<close>

lemma check_pii_blocked_iff:
  "vs_blocked (check_pii env t b bs st) =
     (find (\<lambda>other_buyer. b_id other_buyer \<noteq> b_id b \<and>
              (str_in (b_name other_buyer) t \<or> str_in (b_phone other_buyer) t)) bs \<noteq> None
      \<or> vs_blocked st)"
  by (simp add: check_pii_def coach_and_record_blocked split: option.split)

lemma check_pii_blocked: "vs_blocked st \<Longrightarrow> vs_blocked (check_pii env t b bs st)"
  by (simp add: check_pii_blocked_iff)

lemma check_pii_grows: "grows st (check_pii env t b bs st)"
  by (simp add: check_pii_def grows_refl grows_coach_and_record split: option.split)

lemma check_commitment_blocked:
  "vs_blocked (check_commitment env t st) = vs_blocked st"
  by (simp add: check_commitment_def coach_and_record_blocked)

lemma check_commitment_grows: "grows st (check_commitment env t st)"
  by (simp add: check_commitment_def grows_refl grows_coach_and_record)

text \<open>The financial check, one figure and then the loop over all figures.\<close>

lemma check_total_blocked:
  "vs_blocked (check_total env catch price st val) = (wrong_total catch price val \<or> vs_blocked st)"
  by (simp add: check_total_def coach_and_record_blocked)

lemma check_total_grows: "grows st (check_total env catch price st val)"
  by (simp add: check_total_def grows_refl grows_coach_and_record)

lemma check_total_records:
  "wrong_total catch price val \<Longrightarrow>
     records st (check_total env catch price st val) ''financial_accuracy'' HIGH"
  by (simp add: check_total_def records_create)

lemma check_totals_blocked:
  "vs_blocked (foldl (check_total env catch price) st vals) =
     (vs_blocked st \<or> (\<exists>val \<in> set vals. wrong_total catch price val))"
  by (induction vals arbitrary: st) (auto simp: check_total_blocked)

lemma check_totals_grows: "grows st (foldl (check_total env catch price) st vals)"
proof (induction vals arbitrary: st)
  case Nil
  show ?case by (simp add: grows_refl)
next
  case (Cons val vals)
  show ?case
    using grows_trans [OF check_total_grows Cons.IH] by simp
qed

lemma check_totals_records:
  "\<exists>val \<in> set vals. wrong_total catch price val \<Longrightarrow>
     records st (foldl (check_total env catch price) st vals) ''financial_accuracy'' HIGH"
proof (induction vals arbitrary: st)
  case Nil
  then show ?case by simp
next
  case (Cons val vals)
  show ?case
  proof (cases "wrong_total catch price val")
    case True
    from records_grows [OF check_total_records [OF True] check_totals_grows]
    show ?thesis by simp
  next
    case False
    with Cons.prems have "\<exists>val \<in> set vals. wrong_total catch price val" by simp
    from grows_records [OF check_total_grows Cons.IH [OF this]]
    show ?thesis by simp
  qed
qed


lemma records_from_start:
  assumes "records \<lparr> vs_coach = cs, vs_violations = [], vs_blocked = False \<rparr> st g l"
  shows "(\<exists>c \<in> set (vs_violations st). coaching_level c = l) \<and>
         (\<exists>es. coaching_history (vs_coach st) = coaching_history cs @ es \<and>
               (\<exists>e \<in> set es. e_guardrail e = g \<and> severity e = l))"
  using assms unfolding records_def by auto

text \<open>The whole validation.\<close>

lemma validate_not_blocked:
  assumes "\<not> val_blocked (fst (validate_message_draft env t catch price b bs cs))"
  shows "str_in (''$'' @ str_float env (pr_price_per_lb price)) t"
    and "str_in (str_int (int_of_float (c_pounds catch))) t"
    and "str_in (lower (c_fish_type catch)) (lower t)"
    and "\<forall>val \<in> set (dollar_figures env t). \<not> wrong_total catch price val"
  using assms
  by (simp_all add: validate_message_draft_def Let_def check_financial_def check_totals_blocked
        check_commitment_blocked check_pii_blocked_iff check_fish_type_blocked
        check_pounds_blocked check_price_blocked)

lemma validate_grows_from:
  "grows st (check_financial env t catch price
       (check_commitment env t (check_pii env t b bs st)))"
  unfolding check_financial_def
  by (rule grows_trans [OF check_pii_grows grows_trans [OF check_commitment_grows check_totals_grows]])

lemma validate_blocked_from:
  "vs_blocked st \<Longrightarrow> vs_blocked (check_financial env t catch price
       (check_commitment env t (check_pii env t b bs st)))"
  by (simp add: check_financial_def check_totals_blocked check_commitment_blocked check_pii_blocked)

lemma validate_hallucination_vstate:
  assumes "\<not> (str_in (''$'' @ str_float env (pr_price_per_lb price)) t
             \<and> str_in (str_int (int_of_float (c_pounds catch))) t
             \<and> str_in (lower (c_fish_type catch)) (lower t))"
  shows "records st
           (check_fish_type env t catch (check_pounds env t catch (check_price env t price st)))
           ''hallucination_prevention'' CRITICAL
         \<and> vs_blocked (check_fish_type env t catch (check_pounds env t catch (check_price env t price st)))"
proof -
  let ?s1 = "check_price env t price st"
  let ?s2 = "check_pounds env t catch ?s1"
  let ?s3 = "check_fish_type env t catch ?s2"
  consider (price) "\<not> str_in (''$'' @ str_float env (pr_price_per_lb price)) t"
    | (pounds) "\<not> str_in (str_int (int_of_float (c_pounds catch))) t"
    | (fish) "\<not> str_in (lower (c_fish_type catch)) (lower t)"
    using assms by blast
  then have "records st ?s3 ''hallucination_prevention'' CRITICAL"
  proof cases
    case price
    from records_grows [OF check_price_records [OF price]
           grows_trans [OF check_pounds_grows check_fish_type_grows]]
    show ?thesis .
  next
    case pounds
    from grows_records [OF check_price_grows
           records_grows [OF check_pounds_records [OF pounds] check_fish_type_grows]]
    show ?thesis .
  next
    case fish
    from grows_records [OF grows_trans [OF check_price_grows check_pounds_grows]
           check_fish_type_records [OF fish]]
    show ?thesis .
  qed
  moreover have "vs_blocked ?s3"
    using assms by (auto simp: check_fish_type_blocked check_pounds_blocked check_price_blocked)
  ultimately show ?thesis by blast
qed

lemma validate_hallucination:
  assumes "\<not> (str_in (''$'' @ str_float env (pr_price_per_lb price)) t
             \<and> str_in (str_int (int_of_float (c_pounds catch))) t
             \<and> str_in (lower (c_fish_type catch)) (lower t))"
  shows "val_blocked (fst (validate_message_draft env t catch price b bs cs))"
    and "\<exists>c \<in> set (val_violations (fst (validate_message_draft env t catch price b bs cs))).
           coaching_level c = CRITICAL"
    and "\<exists>es. coaching_history (snd (validate_message_draft env t catch price b bs cs)) =
                 coaching_history cs @ es
              \<and> (\<exists>e \<in> set es. e_guardrail e = ''hallucination_prevention'' \<and> severity e = CRITICAL)"
proof -
  let ?s0 = "\<lparr> vs_coach = cs, vs_violations = [], vs_blocked = False \<rparr>"
  let ?s3 = "check_fish_type env t catch (check_pounds env t catch (check_price env t price ?s0))"
  let ?s6 = "check_financial env t catch price (check_commitment env t (check_pii env t b bs ?s3))"
  from validate_hallucination_vstate [OF assms, of ?s0]
  have r3: "records ?s0 ?s3 ''hallucination_prevention'' CRITICAL" and b3: "vs_blocked ?s3"
    by blast+
  from records_grows [OF r3 validate_grows_from]
  have r6: "records ?s0 ?s6 ''hallucination_prevention'' CRITICAL" .
  have b6: "vs_blocked ?s6" by (rule validate_blocked_from [OF b3])
  have V: "validate_message_draft env t catch price b bs cs =
             (\<lparr> val_blocked = vs_blocked ?s6, val_violations = vs_violations ?s6 \<rparr>, vs_coach ?s6)"
    by (simp add: validate_message_draft_def Let_def)
  show "val_blocked (fst (validate_message_draft env t catch price b bs cs))"
    using b6 by (simp add: V)
  show "\<exists>c \<in> set (val_violations (fst (validate_message_draft env t catch price b bs cs))).
           coaching_level c = CRITICAL"
    using records_from_start [OF r6] by (simp add: V)
  show "\<exists>es. coaching_history (snd (validate_message_draft env t catch price b bs cs)) =
                 coaching_history cs @ es
              \<and> (\<exists>e \<in> set es. e_guardrail e = ''hallucination_prevention'' \<and> severity e = CRITICAL)"
    using records_from_start [OF r6] by (simp add: V)
qed

lemma validate_financial:
  assumes "\<exists>val \<in> set (dollar_figures env t). wrong_total catch price val"
  shows "val_blocked (fst (validate_message_draft env t catch price b bs cs))"
    and "\<exists>c \<in> set (val_violations (fst (validate_message_draft env t catch price b bs cs))).
           coaching_level c = HIGH"
    and "\<exists>es. coaching_history (snd (validate_message_draft env t catch price b bs cs)) =
                 coaching_history cs @ es
              \<and> (\<exists>e \<in> set es. e_guardrail e = ''financial_accuracy'' \<and> severity e = HIGH)"
proof -
  let ?s0 = "\<lparr> vs_coach = cs, vs_violations = [], vs_blocked = False \<rparr>"
  let ?s5 = "check_commitment env t (check_pii env t b bs
               (check_fish_type env t catch (check_pounds env t catch (check_price env t price ?s0))))"
  let ?s6 = "check_financial env t catch price ?s5"
  have g5: "grows ?s0 ?s5"
    by (rule grows_trans [OF check_price_grows
               grows_trans [OF check_pounds_grows
                 grows_trans [OF check_fish_type_grows
                   grows_trans [OF check_pii_grows check_commitment_grows]]]])
  have r6: "records ?s0 ?s6 ''financial_accuracy'' HIGH"
    unfolding check_financial_def
    by (rule grows_records [OF g5 check_totals_records [OF assms]])
  have b6: "vs_blocked ?s6"
    using assms by (simp add: check_financial_def check_totals_blocked)
  have V: "validate_message_draft env t catch price b bs cs =
             (\<lparr> val_blocked = vs_blocked ?s6, val_violations = vs_violations ?s6 \<rparr>, vs_coach ?s6)"
    by (simp add: validate_message_draft_def Let_def)
  show "val_blocked (fst (validate_message_draft env t catch price b bs cs))"
    using b6 by (simp add: V)
  show "\<exists>c \<in> set (val_violations (fst (validate_message_draft env t catch price b bs cs))).
           coaching_level c = HIGH"
    using records_from_start [OF r6] by (simp add: V)
  show "\<exists>es. coaching_history (snd (validate_message_draft env t catch price b bs cs)) =
                 coaching_history cs @ es
              \<and> (\<exists>e \<in> set es. e_guardrail e = ''financial_accuracy'' \<and> severity e = HIGH)"
    using records_from_start [OF r6] by (simp add: V)
qed

text \<open>The loop body and the loop.\<close>

lemma process_buyer_recent:
  assumes "recent_messages db (utcnow_at env (clock_reads (g_coach st))) b \<noteq> []"
  shows "process_buyer env db catch price buyers st b =
     st\<lparr> g_coach := snd (coach_agent env (duplicate_violation b)
                          ((g_coach st)\<lparr> clock_reads := clock_reads (g_coach st) + 1 \<rparr>)),
         g_violations := g_violations st @
           [fst (coach_agent env (duplicate_violation b)
                   ((g_coach st)\<lparr> clock_reads := clock_reads (g_coach st) + 1 \<rparr>))] \<rparr>"
  using assms by (simp add: process_buyer_def Let_def case_prod_beta)

lemma process_buyer_fresh:
  assumes "recent_messages db (utcnow_at env (clock_reads (g_coach st))) b = []"
  shows "process_buyer env db catch price buyers st b =
     (let t = generate_message_text env (clock_reads (g_coach st) + 1) catch price b;
          V = validate_message_draft env t catch price b buyers
                ((g_coach st)\<lparr> clock_reads := clock_reads (g_coach st) + 1 \<rparr>)
      in if val_blocked (fst V)
         then st\<lparr> g_coach := snd V, g_violations := g_violations st @ val_violations (fst V) \<rparr>
         else st\<lparr> g_coach := snd V,
                  g_drafts := g_drafts st @
                    [\<lparr> d_buyer_id = b_id b, d_buyer_name = b_name b, d_message_text = t,
                       d_catch_id = c_id catch, d_fish_type = c_fish_type catch,
                       d_pounds = c_pounds catch, d_price_per_lb = pr_price_per_lb price \<rparr>] \<rparr>)"
  using assms by (simp add: process_buyer_def Let_def case_prod_beta)

lemma process_buyer_drafts_invariant:
  assumes acc: "\<And>t b cs. \<not> val_blocked (fst (validate_message_draft env t catch price b buyers cs)) \<Longrightarrow> Q t"
      and inv: "\<forall>d \<in> set (g_drafts st). Q (d_message_text d)"
  shows "\<forall>d \<in> set (g_drafts (process_buyer env db catch price buyers st b)). Q (d_message_text d)"
proof (cases "recent_messages db (utcnow_at env (clock_reads (g_coach st))) b = []")
  case True
  let ?t = "generate_message_text env (clock_reads (g_coach st) + 1) catch price b"
  let ?V = "validate_message_draft env ?t catch price b buyers
              ((g_coach st)\<lparr> clock_reads := clock_reads (g_coach st) + 1 \<rparr>)"
  show ?thesis
  proof (cases "val_blocked (fst ?V)")
    case True
    with inv show ?thesis
      by (simp add: process_buyer_fresh [OF \<open>recent_messages db _ b = []\<close>] Let_def)
  next
    case False
    from acc [OF False] have "Q ?t" .
    with inv False show ?thesis
      by (simp add: process_buyer_fresh [OF \<open>recent_messages db _ b = []\<close>] Let_def)
  qed
next
  case False
  show ?thesis
    using inv by (simp add: process_buyer_recent [OF False])
qed

lemma loop_drafts_invariant:
  assumes acc: "\<And>t b cs. \<not> val_blocked (fst (validate_message_draft env t catch price b buyers cs)) \<Longrightarrow> Q t"
      and inv: "\<forall>d \<in> set (g_drafts st). Q (d_message_text d)"
  shows "\<forall>d \<in> set (g_drafts (foldl (process_buyer env db catch price buyers) st bs)).
           Q (d_message_text d)"
  using inv
proof (induction bs arbitrary: st)
  case Nil
  then show ?case by simp
next
  case (Cons b bs)
  have "\<forall>d \<in> set (g_drafts (process_buyer env db catch price buyers st b)). Q (d_message_text d)"
    by (rule process_buyer_drafts_invariant [OF acc Cons.prems])
  from Cons.IH [OF this] show ?case by simp
qed

lemma generate_drafts_invariant:
  assumes acc: "\<And>t b cs. \<not> val_blocked (fst (validate_message_draft env t catch price b buyers cs)) \<Longrightarrow> Q t"
  shows "\<forall>d \<in> set (drafts (fst (generate_buyer_messages env catch (Some price) buyers db cs))).
           Q (d_message_text d)"
proof -
  have "\<forall>d \<in> set (g_drafts (foldl (process_buyer env db catch price buyers)
                \<lparr> g_coach = cs, g_violations = [], g_drafts = [] \<rparr> buyers)). Q (d_message_text d)"
    by (rule loop_drafts_invariant [OF acc]) simp_all
  then show ?thesis
    by (simp add: generate_buyer_messages_def Let_def)
qed

lemma validate_blocked_iff:
  "val_blocked (fst (validate_message_draft env t catch price b bs cs)) =
     (\<not> str_in (''$'' @ str_float env (pr_price_per_lb price)) t
      \<or> \<not> str_in (str_int (int_of_float (c_pounds catch))) t
      \<or> \<not> str_in (lower (c_fish_type catch)) (lower t)
      \<or> find (\<lambda>other_buyer. b_id other_buyer \<noteq> b_id b \<and>
                 (str_in (b_name other_buyer) t \<or> str_in (b_phone other_buyer) t)) bs \<noteq> None
      \<or> (\<exists>val \<in> set (dollar_figures env t). wrong_total catch price val))"
  by (auto simp add: validate_message_draft_def Let_def check_financial_def check_totals_blocked
        check_commitment_blocked check_pii_blocked_iff check_fish_type_blocked
        check_pounds_blocked check_price_blocked)

lemma sample_reply_facts:
  "str_in (''$'' @ str_float sample_env (pr_price_per_lb sample_price)) sample_reply"
  "str_in (str_int (int_of_float (c_pounds sample_catch))) sample_reply"
  "str_in (lower (c_fish_type sample_catch)) (lower sample_reply)"
  "dollar_figures sample_env sample_reply = [Finite (pr_price_per_lb sample_price)]"
  "\<not> wrong_total sample_catch sample_price (Finite (pr_price_per_lb sample_price))"
  by code_simp+

lemma sample_accepted:
  "\<not> val_blocked (fst (validate_message_draft sample_env sample_reply sample_catch sample_price
         john [john] cs))"
  using sample_reply_facts by (simp add: validate_blocked_iff)

lemma sample_text: "generate_message_text sample_env n catch price b = sample_reply"
  by (simp add: generate_message_text_def sample_env_def)

lemma sample_drafts:
  "map d_message_text (drafts (fst (generate_buyer_messages sample_env sample_catch
       (Some sample_price) [john] [] init_coach))) = [sample_reply]"
  by (simp add: generate_buyer_messages_def Let_def process_buyer_fresh recent_messages_def
        sample_text sample_accepted)


section \<open>Accepted drafts state the verified facts\<close>

text \<open>
  C2. For every call of \<open>generate_buyer_messages\<close> with a price, the text of every
  returned draft contains the price figure (\<open>$\<close> followed by the rendered price per
  pound), the integer pound count and, case-insensitively, the fish type. And a candidate
  text that omits one of the three, for a buyer not contacted recently, adds no draft,
  while a violation coached at level CRITICAL is returned and an event of guardrail
  \<open>hallucination_prevention\<close> and severity CRITICAL is appended to the history.
\<close>

theorem accepted_drafts_carry_verified_facts:
  "(\<forall>d \<in> set (drafts (fst (generate_buyer_messages env catch (Some price) buyers db cs))).
       str_in (''$'' @ str_float env (pr_price_per_lb price)) (d_message_text d)
     \<and> str_in (str_int (int_of_float (c_pounds catch))) (d_message_text d)
     \<and> str_in (lower (c_fish_type catch)) (lower (d_message_text d)))
   \<and> (let t = generate_message_text env (clock_reads (g_coach st) + 1) catch price buyer;
           st' = process_buyer env db catch price buyers st buyer
       in recent_messages db (utcnow_at env (clock_reads (g_coach st))) buyer = [] \<longrightarrow>
          \<not> (str_in (''$'' @ str_float env (pr_price_per_lb price)) t
             \<and> str_in (str_int (int_of_float (c_pounds catch))) t
             \<and> str_in (lower (c_fish_type catch)) (lower t)) \<longrightarrow>
          g_drafts st' = g_drafts st
          \<and> (\<exists>vs. g_violations st' = g_violations st @ vs
                  \<and> (\<exists>c \<in> set vs. coaching_level c = CRITICAL))
          \<and> (\<exists>es. coaching_history (g_coach st') = coaching_history (g_coach st) @ es
                  \<and> (\<exists>e \<in> set es. e_guardrail e = ''hallucination_prevention''
                                   \<and> severity e = CRITICAL)))"
proof (intro conjI)
  let ?Q = "\<lambda>t. str_in (''$'' @ str_float env (pr_price_per_lb price)) t
     \<and> str_in (str_int (int_of_float (c_pounds catch))) t
     \<and> str_in (lower (c_fish_type catch)) (lower t)"
  have acc: "?Q t" if "\<not> val_blocked (fst (validate_message_draft env t catch price b buyers cs'))"
    for t b cs'
    using validate_not_blocked(1-3) [OF that] by blast
  have "\<forall>d \<in> set (drafts (fst (generate_buyer_messages env catch (Some price) buyers db cs))).
          ?Q (d_message_text d)"
    by (rule generate_drafts_invariant) (rule acc)
  then show "\<forall>d \<in> set (drafts (fst (generate_buyer_messages env catch (Some price) buyers db cs))).
       str_in (''$'' @ str_float env (pr_price_per_lb price)) (d_message_text d)
     \<and> str_in (str_int (int_of_float (c_pounds catch))) (d_message_text d)
     \<and> str_in (lower (c_fish_type catch)) (lower (d_message_text d))" .
next
  let ?t = "generate_message_text env (clock_reads (g_coach st) + 1) catch price buyer"
  let ?cs0 = "(g_coach st)\<lparr> clock_reads := clock_reads (g_coach st) + 1 \<rparr>"
  let ?V = "validate_message_draft env ?t catch price buyer buyers ?cs0"
  let ?st' = "process_buyer env db catch price buyers st buyer"
  have "g_drafts ?st' = g_drafts st
          \<and> (\<exists>vs. g_violations ?st' = g_violations st @ vs
                  \<and> (\<exists>c \<in> set vs. coaching_level c = CRITICAL))
          \<and> (\<exists>es. coaching_history (g_coach ?st') = coaching_history (g_coach st) @ es
                  \<and> (\<exists>e \<in> set es. e_guardrail e = ''hallucination_prevention''
                                   \<and> severity e = CRITICAL))"
    if fresh: "recent_messages db (utcnow_at env (clock_reads (g_coach st))) buyer = []"
    and omit: "\<not> (str_in (''$'' @ str_float env (pr_price_per_lb price)) ?t
             \<and> str_in (str_int (int_of_float (c_pounds catch))) ?t
             \<and> str_in (lower (c_fish_type catch)) (lower ?t))"
  proof -
    note h = validate_hallucination [OF omit, of buyer buyers ?cs0]
    have st': "?st' = st\<lparr> g_coach := snd ?V,
                 g_violations := g_violations st @ val_violations (fst ?V) \<rparr>"
      using h(1) by (simp add: process_buyer_fresh [OF fresh] Let_def)
    show ?thesis
      using h(2) h(3) by (simp add: st')
  qed
  then show "let t = ?t; st' = ?st'
       in recent_messages db (utcnow_at env (clock_reads (g_coach st))) buyer = [] \<longrightarrow>
          \<not> (str_in (''$'' @ str_float env (pr_price_per_lb price)) t
             \<and> str_in (str_int (int_of_float (c_pounds catch))) t
             \<and> str_in (lower (c_fish_type catch)) (lower t)) \<longrightarrow>
          g_drafts st' = g_drafts st
          \<and> (\<exists>vs. g_violations st' = g_violations st @ vs
                  \<and> (\<exists>c \<in> set vs. coaching_level c = CRITICAL))
          \<and> (\<exists>es. coaching_history (g_coach st') = coaching_history (g_coach st) @ es
                  \<and> (\<exists>e \<in> set es. e_guardrail e = ''hallucination_prevention''
                                   \<and> severity e = CRITICAL))"
    unfolding Let_def by blast
qed


lemma sample_renderings:
  "''$'' @ str_float sample_env (pr_price_per_lb sample_price) = ''$4.2''"
  "str_int (int_of_float (c_pounds sample_catch)) = ''450''"
  "lower (c_fish_type sample_catch) = ''halibut''"
  by code_simp+

lemma forgetful_omits:
  "\<not> str_in (str_int (int_of_float (c_pounds sample_catch)))
        (generate_message_text forgetful_env n sample_catch sample_price john)"
proof -
  have "generate_message_text forgetful_env n sample_catch sample_price john =
          ''Hey John, fresh Halibut today. Cannery buying at $4.20/lb. Interested?''"
    by (simp add: generate_message_text_def forgetful_env_def)
  moreover have "\<not> str_in (str_int (int_of_float (c_pounds sample_catch)))
      ''Hey John, fresh Halibut today. Cannery buying at $4.20/lb. Interested?''"
    by code_simp
  ultimately show ?thesis by simp
qed

theorem accepted_drafts_carry_verified_facts_witness:
  "(\<exists>d. d \<in> set (drafts (fst (generate_buyer_messages sample_env sample_catch
                                 (Some sample_price) [john] [] init_coach)))
        \<and> str_in ''$4.2'' (d_message_text d)
        \<and> str_in ''450'' (d_message_text d)
        \<and> str_in ''halibut'' (lower (d_message_text d)))
   \<and> g_drafts (process_buyer forgetful_env [] sample_catch sample_price [john] empty_batch john) = []
   \<and> (\<exists>e \<in> set (coaching_history
                    (g_coach (process_buyer forgetful_env [] sample_catch sample_price [john] empty_batch john))).
         e_guardrail e = ''hallucination_prevention'' \<and> severity e = CRITICAL)"
proof -
  let ?ds = "drafts (fst (generate_buyer_messages sample_env sample_catch
                            (Some sample_price) [john] [] init_coach))"
  have "?ds \<noteq> []" using sample_drafts by auto
  then obtain d where d: "d \<in> set ?ds" by (cases ?ds) auto
  from d accepted_drafts_carry_verified_facts
         [of sample_env sample_catch sample_price "[john]" "[]" init_coach]
  have "str_in ''$4.2'' (d_message_text d) \<and> str_in ''450'' (d_message_text d)
        \<and> str_in ''halibut'' (lower (d_message_text d))"
    unfolding sample_renderings by blast
  with d have first: "\<exists>d. d \<in> set ?ds \<and> str_in ''$4.2'' (d_message_text d)
        \<and> str_in ''450'' (d_message_text d) \<and> str_in ''halibut'' (lower (d_message_text d))"
    by blast
  have fresh: "recent_messages [] (utcnow_at forgetful_env (clock_reads (g_coach empty_batch))) john = []"
    by (simp add: recent_messages_def)
  from accepted_drafts_carry_verified_facts
         [of forgetful_env sample_catch sample_price "[john]" "[]" init_coach empty_batch john]
       fresh forgetful_omits
  have "g_drafts (process_buyer forgetful_env [] sample_catch sample_price [john] empty_batch john) =
          g_drafts empty_batch
        \<and> (\<exists>es. coaching_history
                   (g_coach (process_buyer forgetful_env [] sample_catch sample_price [john] empty_batch john)) =
                 coaching_history (g_coach empty_batch) @ es
               \<and> (\<exists>e \<in> set es. e_guardrail e = ''hallucination_prevention''
                                \<and> severity e = CRITICAL))"
    unfolding Let_def by blast
  then have second:
    "g_drafts (process_buyer forgetful_env [] sample_catch sample_price [john] empty_batch john) = []
     \<and> (\<exists>e \<in> set (coaching_history
                    (g_coach (process_buyer forgetful_env [] sample_catch sample_price [john] empty_batch john))).
         e_guardrail e = ''hallucination_prevention'' \<and> severity e = CRITICAL)"
    by (auto simp: empty_batch_def init_coach_def)
  from first second show ?thesis by blast
qed

section \<open>Dollar figures other than the price\<close>

text \<open>
  The rounding to the nearest float. \<open>bit_length\<close> and \<open>floor_log2\<close> find the binary
  exponent of a number.
\<close>

lemma bit_length_nonneg: "0 \<le> bit_length n"
  by (induction n rule: bit_length.induct) (subst bit_length.simps, auto)

lemma bit_length_bounds:
  "0 < n \<Longrightarrow> 2 ^ nat (bit_length n - 1) \<le> n \<and> n < 2 ^ nat (bit_length n)"
proof (induction n rule: bit_length.induct)
  case (1 n)
  show ?case
  proof (cases "n = 1")
    case True
    then show ?thesis by (simp add: bit_length.simps [of 1] bit_length.simps [of 0])
  next
    case False
    with 1(2) have h: "0 < n div 2" "\<not> n \<le> 0" by auto
    from 1(1) [OF h(2) h(1)]
    have ih: "2 ^ nat (bit_length (n div 2) - 1) \<le> n div 2" "n div 2 < 2 ^ nat (bit_length (n div 2))"
      by auto
    have pos: "0 < bit_length (n div 2)"
      using h(1) bit_length_nonneg [of "n div 2 div 2"] by (subst bit_length.simps) simp
    have bl: "bit_length n = 1 + bit_length (n div 2)"
      using h(2) by (subst bit_length.simps) simp
    have e1: "nat (bit_length n - 1) = Suc (nat (bit_length (n div 2) - 1))"
      using pos by (simp add: bl nat_diff_distrib Suc_nat_eq_nat_zadd1)
    have e2: "nat (bit_length n) = Suc (nat (bit_length (n div 2)))"
      using pos by (simp add: bl nat_add_distrib)
    show ?thesis
      unfolding e1 e2 using ih by auto
  qed
qed

lemma pow2_pos: "0 < pow2 e"
  by (simp add: pow2_def)

lemma pow2_Suc: "pow2 (e + 1) = 2 * pow2 e"
proof (cases "0 \<le> e")
  case True
  then show ?thesis by (simp add: pow2_def nat_add_distrib)
next
  case False
  then have "nat (- e) = Suc (nat (- (e + 1)))" by simp
  then show ?thesis using False by (auto simp add: pow2_def)
qed

lemma pow2_diff: "0 \<le> a \<Longrightarrow> 0 \<le> b \<Longrightarrow> pow2 (a - b) = 2 ^ nat a / 2 ^ nat b"
  by (auto simp add: pow2_def power_diff nat_diff_distrib' field_simps simp flip: power_add)


lemma floor_log2_bounds:
  assumes "0 < x"
  shows "pow2 (floor_log2 x) \<le> x \<and> x < pow2 (floor_log2 x + 1)"
proof -
  obtain p q where pq: "quotient_of x = (p, q)" by (cases "quotient_of x")
  then have q: "0 < q" and x: "x = of_int p / of_int q"
    using quotient_of_denom_pos quotient_of_div by auto
  with assms have p: "0 < p"
    by (simp add: zero_less_divide_iff)
  define m where "m = bit_length p"
  define n where "n = bit_length q"
  define e where "e = m - n"
  from bit_length_bounds [OF p] have pb: "2 ^ nat (m - 1) \<le> p" "p < 2 ^ nat m"
    by (simp_all add: m_def)
  from bit_length_bounds [OF q] have qb: "2 ^ nat (n - 1) \<le> q" "q < 2 ^ nat n"
    by (simp_all add: n_def)
  have mpos: "0 < m"
    using pb(2) p bit_length_nonneg [of p] unfolding m_def
    by (cases "bit_length p = 0") auto
  have npos: "0 < n"
    using qb(2) q bit_length_nonneg [of q] unfolding n_def
    by (cases "bit_length q = 0") auto
  have lo: "pow2 (e - 1) < x"
  proof -
    have "pow2 (e - 1) = 2 ^ nat (m - 1) / 2 ^ nat n"
      using mpos npos pow2_diff [of "m - 1" n] by (simp add: e_def algebra_simps)
    also have "\<dots> < of_int p / of_int q"
    proof -
      have a: "(2::rat) ^ nat (m - 1) \<le> of_int p"
        using pb(1) by (metis of_int_le_iff of_int_numeral of_int_power)
      have b: "(of_int q :: rat) < 2 ^ nat n"
        using qb(2) by (metis of_int_less_iff of_int_numeral of_int_power)
      have "(2::rat) ^ nat (m - 1) / 2 ^ nat n < 2 ^ nat (m - 1) / of_int q"
        using b q by (simp add: divide_strict_left_mono)
      also have "\<dots> \<le> of_int p / of_int q"
        using a q by (simp add: divide_right_mono)
      finally show ?thesis .
    qed
    finally show ?thesis by (simp add: x)
  qed
  have hi: "x < pow2 (e + 1)"
  proof -
    have "of_int p / of_int q < (2::rat) ^ nat m / 2 ^ nat (n - 1)"
    proof -
      have a: "(of_int p :: rat) < 2 ^ nat m"
        using pb(2) by (metis of_int_less_iff of_int_numeral of_int_power)
      have b: "(2::rat) ^ nat (n - 1) \<le> of_int q"
        using qb(1) by (metis of_int_le_iff of_int_numeral of_int_power)
      have "of_int p / of_int q < (2::rat) ^ nat m / of_int q"
        using a q by (simp add: divide_strict_right_mono)
      also have "\<dots> \<le> 2 ^ nat m / 2 ^ nat (n - 1)"
        by (rule divide_left_mono [OF b]) (use q in auto)
      finally show ?thesis .
    qed
    also have "\<dots> = pow2 (e + 1)"
      using mpos npos pow2_diff [of m "n - 1"] by (simp add: e_def algebra_simps)
    finally show ?thesis by (simp add: x)
  qed
  have fl: "floor_log2 x = (if pow2 e \<le> x then e else e - 1)"
    by (simp add: floor_log2_def pq e_def m_def n_def Let_def)
  show ?thesis
  proof (cases "pow2 e \<le> x")
    case True
    with hi show ?thesis by (simp add: fl)
  next
    case False
    with lo show ?thesis by (simp add: fl not_le less_imp_le)
  qed
qed

lemma round_half_even_near: "\<bar>of_int (round_half_even x) - x\<bar> \<le> 1 / 2"
proof -
  have "of_int \<lfloor>x\<rfloor> \<le> x" "x < of_int \<lfloor>x\<rfloor> + 1" by linarith+
  then show ?thesis
    by (auto simp add: round_half_even_def Let_def abs_le_iff)
qed

lemma round_half_even_int: "round_half_even (of_int m) = m"
  by (simp add: round_half_even_def)

text \<open>
  The result of \<open>round64\<close> is within half a unit in the last place of its argument, and a
  number that is a multiple of its unit in the last place, below the overflow bound, is
  left as it is.
\<close>

lemma round64_error:
  assumes "x \<noteq> 0" and "round64 x = Finite r"
  shows "\<bar>r - x\<bar> \<le> pow2 (max (floor_log2 \<bar>x\<bar> - 52) (- 1074)) / 2"
proof -
  define q where "q = max (floor_log2 \<bar>x\<bar> - 52) (- 1074)"
  have r: "r = of_int (round_half_even (x / pow2 q)) * pow2 q"
    using assms by (simp add: round64_def Let_def q_def split: if_splits)
  have "\<bar>r - x\<bar> = \<bar>of_int (round_half_even (x / pow2 q)) - x / pow2 q\<bar> * pow2 q"
  proof -
    have "of_int (round_half_even (x / pow2 q)) * pow2 q - x =
          (of_int (round_half_even (x / pow2 q)) - x / pow2 q) * pow2 q"
      using pow2_pos [of q] by (simp add: left_diff_distrib)
    then show ?thesis
      using pow2_pos [of q] by (simp add: r abs_mult)
  qed
  also have "\<dots> \<le> (1 / 2) * pow2 q"
    using round_half_even_near [of "x / pow2 q"] pow2_pos [of q]
    by (intro mult_right_mono) auto
  finally show ?thesis by (simp add: q_def)
qed

lemma round64_exact:
  assumes "x \<noteq> 0"
    and "x = of_int m * pow2 (max (floor_log2 \<bar>x\<bar> - 52) (- 1074))"
    and "\<bar>x\<bar> < pow2 1024"
  shows "round64 x = Finite x"
proof -
  define q where "q = max (floor_log2 \<bar>x\<bar> - 52) (- 1074)"
  have "x / pow2 q = of_int m"
    using assms(2) pow2_pos [of q] by (simp add: q_def [symmetric])
  then have "of_int (round_half_even (x / pow2 q)) * pow2 q = x"
    using assms(2) by (simp add: round_half_even_int q_def [symmetric])
  then show ?thesis
    using assms(1,3) by (simp add: round64_def Let_def q_def [symmetric] not_le)
qed

text \<open>Some values of \<open>round64\<close>, and a figure written with an Arabic-Indic digit.\<close>

lemma round64_samples:
  "round64 (1 / 10) = Finite (3602879701896397 / 2 ^ 55)"
  "round64 (1 / 100) = Finite (5764607523034235 / 2 ^ 59)"
  "round64 (3 / 2) = Finite (3 / 2)"
  "round64 (2 ^ 53 + 1) = Finite (2 ^ 53)"
  "round64 (2 ^ 53 + 3) = Finite (2 ^ 53 + 4)"
  by code_simp+

lemma arabic_indic_figure:
  "dollar_figures sample_env (''41 lbs at $3.00/lb, total $12'' @ [CHR 0xD9, CHR 0xA3]) =
     [Finite 3, Finite 123]"
  by code_simp

text \<open>
  For 450 lbs at the float 4.2 the figure 1908.90, in decimal numerals 1890 plus one
  hundredth of 1890, fails the test of guardrail 6: the rounded difference is
  18.90000000000009 and the rounded hundredth of the product 18.900000000000002.
\<close>

lemma figure_at_the_bound:
  "dollar_figures sample_env ''450 lbs at $4.20/lb, $1908.90 in all'' =
     [Finite (pr_price_per_lb sample_price), Finite (4197715492523213 / 2 ^ 41)]"
  "wrong_total sample_catch sample_price (Finite (4197715492523213 / 2 ^ 41))"
  by code_simp+

text \<open>
  C7, as the code has it. A dollar figure of a draft is a match of the pattern of
  guardrail 6, read by \<open>float\<close>. In every returned draft, every dollar figure \<open>val\<close> that
  differs from the price per pound \<open>R\<close> passes the test of the code in floating-point
  arithmetic: \<open>abs(val - P * R)\<close> is not greater than \<open>(P * R) * 0.01\<close>, \<open>P\<close> being the pounds
  of the catch, where the product \<open>P * R\<close>, the difference and the product with \<open>0.01\<close>
  are each rounded to the nearest float. And a candidate text with a figure that differs
  from \<open>R\<close> and fails this test, for a buyer not contacted recently, adds no draft, while
  a violation coached at level HIGH is returned and an event of guardrail
  \<open>financial_accuracy\<close> is appended to the history.
\<close>

theorem wrong_totals_block_draft:
  "(\<forall>d \<in> set (drafts (fst (generate_buyer_messages env catch (Some price) buyers db cs))).
      \<forall>val \<in> set (dollar_figures env (d_message_text d)).
        val \<noteq> Finite (pr_price_per_lb price) \<longrightarrow>
        \<not> fgt (fabs (fsub val (fmul (Finite (c_pounds catch)) (Finite (pr_price_per_lb price)))))
              (fmul (fmul (Finite (c_pounds catch)) (Finite (pr_price_per_lb price)))
                    (round64 (1 / 100))))
   \<and> (let t = generate_message_text env (clock_reads (g_coach st) + 1) catch price buyer;
           st' = process_buyer env db catch price buyers st buyer
       in recent_messages db (utcnow_at env (clock_reads (g_coach st))) buyer = [] \<longrightarrow>
          (\<exists>val \<in> set (dollar_figures env t).
              val \<noteq> Finite (pr_price_per_lb price)
              \<and> fgt (fabs (fsub val (fmul (Finite (c_pounds catch)) (Finite (pr_price_per_lb price)))))
                     (fmul (fmul (Finite (c_pounds catch)) (Finite (pr_price_per_lb price)))
                           (round64 (1 / 100)))) \<longrightarrow>
          g_drafts st' = g_drafts st
          \<and> (\<exists>vs. g_violations st' = g_violations st @ vs
                  \<and> (\<exists>c \<in> set vs. coaching_level c = HIGH))
          \<and> (\<exists>es. coaching_history (g_coach st') = coaching_history (g_coach st) @ es
                  \<and> (\<exists>e \<in> set es. e_guardrail e = ''financial_accuracy''
                                   \<and> severity e = HIGH)))"
proof (intro conjI)
  let ?Q = "\<lambda>t. \<forall>val \<in> set (dollar_figures env t). \<not> wrong_total catch price val"
  have acc: "?Q t" if "\<not> val_blocked (fst (validate_message_draft env t catch price b buyers cs'))"
    for t b cs'
    using validate_not_blocked(4) [OF that] .
  have "\<forall>d \<in> set (drafts (fst (generate_buyer_messages env catch (Some price) buyers db cs))).
          ?Q (d_message_text d)"
    by (rule generate_drafts_invariant) (rule acc)
  then show "\<forall>d \<in> set (drafts (fst (generate_buyer_messages env catch (Some price) buyers db cs))).
      \<forall>val \<in> set (dollar_figures env (d_message_text d)).
        val \<noteq> Finite (pr_price_per_lb price) \<longrightarrow>
        \<not> fgt (fabs (fsub val (fmul (Finite (c_pounds catch)) (Finite (pr_price_per_lb price)))))
              (fmul (fmul (Finite (c_pounds catch)) (Finite (pr_price_per_lb price)))
                    (round64 (1 / 100)))"
    by (auto simp add: wrong_total_def expected_total_def)
next
  let ?t = "generate_message_text env (clock_reads (g_coach st) + 1) catch price buyer"
  let ?cs0 = "(g_coach st)\<lparr> clock_reads := clock_reads (g_coach st) + 1 \<rparr>"
  let ?V = "validate_message_draft env ?t catch price buyer buyers ?cs0"
  let ?st' = "process_buyer env db catch price buyers st buyer"
  have "g_drafts ?st' = g_drafts st
          \<and> (\<exists>vs. g_violations ?st' = g_violations st @ vs
                  \<and> (\<exists>c \<in> set vs. coaching_level c = HIGH))
          \<and> (\<exists>es. coaching_history (g_coach ?st') = coaching_history (g_coach st) @ es
                  \<and> (\<exists>e \<in> set es. e_guardrail e = ''financial_accuracy''
                                   \<and> severity e = HIGH))"
    if fresh: "recent_messages db (utcnow_at env (clock_reads (g_coach st))) buyer = []"
    and bad: "\<exists>val \<in> set (dollar_figures env ?t).
              val \<noteq> Finite (pr_price_per_lb price)
              \<and> fgt (fabs (fsub val (fmul (Finite (c_pounds catch)) (Finite (pr_price_per_lb price)))))
                     (fmul (fmul (Finite (c_pounds catch)) (Finite (pr_price_per_lb price)))
                           (round64 (1 / 100)))"
  proof -
    from bad have "\<exists>val \<in> set (dollar_figures env ?t). wrong_total catch price val"
      by (simp add: wrong_total_def expected_total_def)
    note h = validate_financial [OF this, of buyer buyers ?cs0]
    have st': "?st' = st\<lparr> g_coach := snd ?V,
                 g_violations := g_violations st @ val_violations (fst ?V) \<rparr>"
      using h(1) by (simp add: process_buyer_fresh [OF fresh] Let_def)
    show ?thesis
      using h(2) h(3) by (simp add: st')
  qed
  then show "let t = ?t; st' = ?st'
       in recent_messages db (utcnow_at env (clock_reads (g_coach st))) buyer = [] \<longrightarrow>
          (\<exists>val \<in> set (dollar_figures env t).
              val \<noteq> Finite (pr_price_per_lb price)
              \<and> fgt (fabs (fsub val (fmul (Finite (c_pounds catch)) (Finite (pr_price_per_lb price)))))
                     (fmul (fmul (Finite (c_pounds catch)) (Finite (pr_price_per_lb price)))
                           (round64 (1 / 100)))) \<longrightarrow>
          g_drafts st' = g_drafts st
          \<and> (\<exists>vs. g_violations st' = g_violations st @ vs
                  \<and> (\<exists>c \<in> set vs. coaching_level c = HIGH))
          \<and> (\<exists>es. coaching_history (g_coach st') = coaching_history (g_coach st) @ es
                  \<and> (\<exists>e \<in> set es. e_guardrail e = ''financial_accuracy''
                                   \<and> severity e = HIGH))"
    unfolding Let_def by blast
qed

text \<open>
  The sample draft is returned with the price as its only figure; the reply that gives
  1,800 dollars for 450 lbs at 4.20 dollars is not: the expected total is 1890.
\<close>

lemma careless_figures:
  "dollar_figures careless_env
      ''Hey John, got 450 lbs fresh Halibut at $4.20/lb, that is $1,800 total. Interested?''
     = [Finite (pr_price_per_lb sample_price), Finite 1800]"
  by code_simp

lemma careless_arithmetic:
  "fmul (Finite (c_pounds sample_catch)) (Finite (pr_price_per_lb sample_price)) = Finite 1890"
  "fsub (Finite 1800) (Finite 1890) = Finite (- 90)"
  "fmul (Finite 1890) (round64 (1 / 100)) = Finite (5319877059831399 / 2 ^ 48)"
  "Finite 1800 \<noteq> Finite (pr_price_per_lb sample_price)"
  by code_simp+

lemma careless_total:
  "\<exists>val \<in> set (dollar_figures careless_env
        (generate_message_text careless_env n sample_catch sample_price john)).
      val \<noteq> Finite (pr_price_per_lb sample_price)
      \<and> fgt (fabs (fsub val (fmul (Finite (c_pounds sample_catch))
                                   (Finite (pr_price_per_lb sample_price)))))
             (fmul (fmul (Finite (c_pounds sample_catch)) (Finite (pr_price_per_lb sample_price)))
                   (round64 (1 / 100)))"
proof -
  have t: "generate_message_text careless_env n sample_catch sample_price john =
          ''Hey John, got 450 lbs fresh Halibut at $4.20/lb, that is $1,800 total. Interested?''"
    by (simp add: generate_message_text_def careless_env_def)
  have "fgt (fabs (Finite (- 90))) (Finite (5319877059831399 / 2 ^ 48))"
    by simp
  then have "fgt (fabs (fsub (Finite 1800) (fmul (Finite (c_pounds sample_catch))
                                   (Finite (pr_price_per_lb sample_price)))))
             (fmul (fmul (Finite (c_pounds sample_catch)) (Finite (pr_price_per_lb sample_price)))
                   (round64 (1 / 100)))"
    unfolding careless_arithmetic(1-3) .
  with careless_arithmetic(4) show ?thesis
    unfolding t careless_figures by (intro bexI [of _ "Finite 1800"]) simp_all
qed

theorem wrong_totals_block_draft_witness:
  "(\<exists>d. d \<in> set (drafts (fst (generate_buyer_messages sample_env sample_catch
                                 (Some sample_price) [john] [] init_coach)))
        \<and> dollar_figures sample_env (d_message_text d) = [Finite (pr_price_per_lb sample_price)])
   \<and> g_drafts (process_buyer careless_env [] sample_catch sample_price [john] empty_batch john) = []
   \<and> (\<exists>e \<in> set (coaching_history
                    (g_coach (process_buyer careless_env [] sample_catch sample_price [john] empty_batch john))).
         e_guardrail e = ''financial_accuracy'' \<and> severity e = HIGH)"
proof -
  let ?ds = "drafts (fst (generate_buyer_messages sample_env sample_catch
                            (Some sample_price) [john] [] init_coach))"
  from sample_drafts obtain d where ds: "?ds = [d]" and d: "d_message_text d = sample_reply"
    by auto
  then have first: "\<exists>d. d \<in> set ?ds
      \<and> dollar_figures sample_env (d_message_text d) = [Finite (pr_price_per_lb sample_price)]"
    using sample_reply_facts(4) by auto
  have fresh: "recent_messages [] (utcnow_at careless_env (clock_reads (g_coach empty_batch))) john = []"
    by (simp add: recent_messages_def)
  from wrong_totals_block_draft
         [of careless_env sample_catch sample_price "[john]" "[]" init_coach empty_batch john]
       fresh careless_total
  have "g_drafts (process_buyer careless_env [] sample_catch sample_price [john] empty_batch john) =
          g_drafts empty_batch
        \<and> (\<exists>es. coaching_history
                   (g_coach (process_buyer careless_env [] sample_catch sample_price [john] empty_batch john)) =
                 coaching_history (g_coach empty_batch) @ es
               \<and> (\<exists>e \<in> set es. e_guardrail e = ''financial_accuracy'' \<and> severity e = HIGH))"
    unfolding Let_def by blast
  then have second:
    "g_drafts (process_buyer careless_env [] sample_catch sample_price [john] empty_batch john) = []
     \<and> (\<exists>e \<in> set (coaching_history
                    (g_coach (process_buyer careless_env [] sample_catch sample_price [john] empty_batch john))).
         e_guardrail e = ''financial_accuracy'' \<and> severity e = HIGH)"
    by (auto simp: empty_batch_def init_coach_def)
  from first second show ?thesis by blast
qed

text \<open>
  C7, as the specification words it, fails next to the bound of 1 percent. For a catch
  of 7530.764966740578 lbs at 3.28 dollars per pound, a reply that gives 24453.90 dollars
  is returned as a draft: the rounded difference from the rounded product,
  247.00909090909045, is not greater than the rounded hundredth of the product,
  247.00909090909093. On the numbers themselves the figure is further than 1 percent of
  \<open>P * R\<close> from \<open>P * R\<close>, both for the float that the figure is read as and for the decimal
  numeral 24453.90.
\<close>

lemma boundary_reply_facts:
  "str_in (''$'' @ str_float boundary_env (pr_price_per_lb boundary_price)) boundary_reply"
  "str_in (str_int (int_of_float (c_pounds boundary_catch))) boundary_reply"
  "str_in (lower (c_fish_type boundary_catch)) (lower boundary_reply)"
  "dollar_figures boundary_env boundary_reply =
     [Finite (pr_price_per_lb boundary_price), Finite (3360918424308941 / 2 ^ 37)]"
  "\<not> wrong_total boundary_catch boundary_price (Finite (pr_price_per_lb boundary_price))"
  "\<not> wrong_total boundary_catch boundary_price (Finite (3360918424308941 / 2 ^ 37))"
  by code_simp+

lemma boundary_accepted:
  "\<not> val_blocked (fst (validate_message_draft boundary_env boundary_reply boundary_catch
         boundary_price john [john] cs))"
  using boundary_reply_facts by (simp add: validate_blocked_iff)

lemma boundary_text: "generate_message_text boundary_env n catch price b = boundary_reply"
  by (simp add: generate_message_text_def boundary_env_def)

lemma boundary_drafts:
  "map d_message_text (drafts (fst (generate_buyer_messages boundary_env boundary_catch
       (Some boundary_price) [john] [] init_coach))) = [boundary_reply]"
  by (simp add: generate_buyer_messages_def Let_def process_buyer_fresh recent_messages_def
        boundary_text boundary_accepted)

theorem one_percent_bound_counterexample:
  "map d_message_text (drafts (fst (generate_buyer_messages boundary_env boundary_catch
       (Some boundary_price) [john] [] init_coach))) = [boundary_reply]
   \<and> dollar_figures boundary_env boundary_reply =
       [Finite (pr_price_per_lb boundary_price), Finite (3360918424308941 / 2 ^ 37)]
   \<and> 3360918424308941 / 2 ^ 37 \<noteq> pr_price_per_lb boundary_price
   \<and> \<bar>3360918424308941 / 2 ^ 37 - c_pounds boundary_catch * pr_price_per_lb boundary_price\<bar>
       > (1 / 100) * (c_pounds boundary_catch * pr_price_per_lb boundary_price)
   \<and> \<bar>2445390 / 100 - c_pounds boundary_catch * pr_price_per_lb boundary_price\<bar>
       > (1 / 100) * (c_pounds boundary_catch * pr_price_per_lb boundary_price)"
proof -
  have "3360918424308941 / 2 ^ 37 \<noteq> pr_price_per_lb boundary_price"
    by (simp add: boundary_price_def)
  moreover have
    "\<bar>3360918424308941 / 2 ^ 37 - c_pounds boundary_catch * pr_price_per_lb boundary_price\<bar>
       > (1 / 100) * (c_pounds boundary_catch * pr_price_per_lb boundary_price)"
    by (simp add: boundary_price_def boundary_catch_def)
  moreover have
    "\<bar>2445390 / 100 - c_pounds boundary_catch * pr_price_per_lb boundary_price\<bar>
       > (1 / 100) * (c_pounds boundary_catch * pr_price_per_lb boundary_price)"
    by (simp add: boundary_price_def boundary_catch_def)
  ultimately show ?thesis
    using boundary_drafts boundary_reply_facts(4) by simp
qed

section \<open>A recently contacted buyer is skipped\<close>






section \<open>Validating a catch log\<close>

text \<open>The three checks of \<open>validate_catch_log\<close>, one after the other.\<close>

lemma check_fish_enum_blocked:
  "vs_blocked (check_fish_enum env f st) = (f \<notin> set valid_fish_types \<or> vs_blocked st)"
  by (simp add: check_fish_enum_def coach_and_record_blocked)

lemma check_fish_enum_grows: "grows st (check_fish_enum env f st)"
  by (simp add: check_fish_enum_def grows_refl grows_coach_and_record)

lemma check_fish_enum_records:
  "f \<notin> set valid_fish_types \<Longrightarrow> records st (check_fish_enum env f st) ''data_integrity'' HIGH"
  by (simp add: check_fish_enum_def records_create)

lemma check_pounds_positive_blocked:
  "vs_blocked (check_pounds_positive env p st) = (p \<le> 0 \<or> vs_blocked st)"
  by (simp add: check_pounds_positive_def coach_and_record_blocked)

lemma check_pounds_positive_grows: "grows st (check_pounds_positive env p st)"
  by (simp add: check_pounds_positive_def grows_refl grows_coach_and_record)

lemma check_pounds_positive_records:
  "p \<le> 0 \<Longrightarrow> records st (check_pounds_positive env p st) ''data_integrity'' HIGH"
  by (simp add: check_pounds_positive_def records_create)

lemma check_pounds_sanity_blocked:
  "vs_blocked (check_pounds_sanity env p st) = vs_blocked st"
  by (simp add: check_pounds_sanity_def coach_and_record_blocked)

lemma check_pounds_sanity_grows: "grows st (check_pounds_sanity env p st)"
  by (simp add: check_pounds_sanity_def grows_refl grows_coach_and_record)

lemma validate_catch_log_unfold:
  "validate_catch_log env f p cs =
     (\<lparr> val_blocked = vs_blocked (check_pounds_sanity env p (check_pounds_positive env p
            (check_fish_enum env f \<lparr> vs_coach = cs, vs_violations = [], vs_blocked = False \<rparr>))),
         val_violations = vs_violations (check_pounds_sanity env p (check_pounds_positive env p
            (check_fish_enum env f \<lparr> vs_coach = cs, vs_violations = [], vs_blocked = False \<rparr>))) \<rparr>,
      vs_coach (check_pounds_sanity env p (check_pounds_positive env p
            (check_fish_enum env f \<lparr> vs_coach = cs, vs_violations = [], vs_blocked = False \<rparr>))))"
  by (simp add: validate_catch_log_def Let_def)

lemma validate_catch_log_invalid:
  assumes "f \<notin> set valid_fish_types \<or> p \<le> 0"
  shows "val_blocked (fst (validate_catch_log env f p cs))
     \<and> (\<exists>c \<in> set (val_violations (fst (validate_catch_log env f p cs))). coaching_level c = HIGH)
     \<and> (\<exists>es. coaching_history (snd (validate_catch_log env f p cs)) = coaching_history cs @ es
            \<and> (\<exists>e \<in> set es. e_guardrail e = ''data_integrity'' \<and> severity e = HIGH))"
proof -
  let ?s0 = "\<lparr> vs_coach = cs, vs_violations = [], vs_blocked = False \<rparr>"
  let ?s1 = "check_fish_enum env f ?s0"
  let ?s2 = "check_pounds_positive env p ?s1"
  let ?s3 = "check_pounds_sanity env p ?s2"
  have r2: "records ?s0 ?s2 ''data_integrity'' HIGH"
  proof (cases "f \<notin> set valid_fish_types")
    case True
    show ?thesis
      by (rule records_grows [OF check_fish_enum_records [OF True] check_pounds_positive_grows])
  next
    case False
    with assms have "p \<le> 0" by blast
    show ?thesis
      by (rule grows_records [OF check_fish_enum_grows check_pounds_positive_records [OF \<open>p \<le> 0\<close>]])
  qed
  have r3: "records ?s0 ?s3 ''data_integrity'' HIGH"
    by (rule records_grows [OF r2 check_pounds_sanity_grows])
  have b3: "vs_blocked ?s3"
    using assms
    by (auto simp add: check_pounds_sanity_blocked check_pounds_positive_blocked check_fish_enum_blocked)
  show ?thesis
    using b3 records_from_start [OF r3] by (simp add: validate_catch_log_unfold)
qed

lemma validate_catch_log_large:
  assumes "f \<in> set valid_fish_types" and "p > 10000"
  shows "\<not> val_blocked (fst (validate_catch_log env f p cs))
     \<and> (\<exists>c e. val_violations (fst (validate_catch_log env f p cs)) = [c]
            \<and> coaching_level c = MEDIUM
            \<and> coaching_history (snd (validate_catch_log env f p cs)) = coaching_history cs @ [e]
            \<and> e_guardrail e = ''data_integrity'' \<and> severity e = MEDIUM)"
proof -
  let ?s0 = "\<lparr> vs_coach = cs, vs_violations = [], vs_blocked = False \<rparr>"
  let ?v = "create_violation ''data_integrity'' ''medium''
              (''Unusually high catch: '' @ str_float env p @ '' lbs'')
              ''Double-check if this amount is correct''"
  have s1: "check_fish_enum env f ?s0 = ?s0"
    using assms(1) by (simp add: check_fish_enum_def)
  have s2: "check_pounds_positive env p ?s0 = ?s0"
    using assms(2) by (simp add: check_pounds_positive_def)
  have s3: "check_pounds_sanity env p ?s0 = coach_and_record env ?v False ?s0"
    using assms(2) by (simp add: check_pounds_sanity_def)
  define S where "S = coach_and_record env ?v False ?s0"
  have V: "validate_catch_log env f p cs =
             (\<lparr> val_blocked = vs_blocked S, val_violations = vs_violations S \<rparr>, vs_coach S)"
    by (simp add: validate_catch_log_unfold s1 s2 s3 S_def)
  obtain c e where ce: "vs_violations S = [c]"
      "coaching_history (vs_coach S) = coaching_history cs @ [e]"
      "e_guardrail e = v_guardrail ?v" "severity e = coaching_level c"
      "coaching_level c = (case map_of severity_map (v_severity ?v) of Some l \<Rightarrow> l | None \<Rightarrow> MEDIUM)"
    using coach_and_record_effect [of env ?v False ?s0] unfolding S_def by auto
  have lvl: "coaching_level c = MEDIUM"
    using ce(5) by (simp add: severity_of_create)
  have g: "e_guardrail e = ''data_integrity''"
    using ce(3) by (simp add: create_violation_guardrail)
  have nb: "\<not> vs_blocked S"
    by (simp add: S_def coach_and_record_blocked)
  show ?thesis
    using ce(1,2,4) lvl g nb by (simp add: V)
qed

text \<open>
  C9. \<open>validate_catch_log\<close> blocks, with a violation coached at level HIGH and an event
  of guardrail \<open>data_integrity\<close> and severity HIGH, when the fish type is none of Crab,
  Salmon, Halibut, Other, or when the pounds are not positive. With a valid fish type and
  more than 10000 pounds it does not block and returns exactly one coached violation, of
  level MEDIUM, its event being of guardrail \<open>data_integrity\<close> and severity MEDIUM.
\<close>

theorem catch_log_validation:
  "((fish_type \<notin> {''Crab'', ''Salmon'', ''Halibut'', ''Other''} \<or> pounds \<le> 0) \<longrightarrow>
       val_blocked (fst (validate_catch_log env fish_type pounds cs))
     \<and> (\<exists>c \<in> set (val_violations (fst (validate_catch_log env fish_type pounds cs))).
           coaching_level c = HIGH)
     \<and> (\<exists>es. coaching_history (snd (validate_catch_log env fish_type pounds cs)) =
                coaching_history cs @ es
            \<and> (\<exists>e \<in> set es. e_guardrail e = ''data_integrity'' \<and> severity e = HIGH)))
   \<and> (fish_type \<in> {''Crab'', ''Salmon'', ''Halibut'', ''Other''} \<and> pounds > 10000 \<longrightarrow>
       \<not> val_blocked (fst (validate_catch_log env fish_type pounds cs))
     \<and> (\<exists>c e. val_violations (fst (validate_catch_log env fish_type pounds cs)) = [c]
            \<and> coaching_level c = MEDIUM
            \<and> coaching_history (snd (validate_catch_log env fish_type pounds cs)) =
                coaching_history cs @ [e]
            \<and> e_guardrail e = ''data_integrity'' \<and> severity e = MEDIUM))"
proof -
  have v: "set valid_fish_types = {''Crab'', ''Salmon'', ''Halibut'', ''Other''}"
    by (simp add: valid_fish_types_def)
  show ?thesis
    using validate_catch_log_invalid [of fish_type pounds env cs]
          validate_catch_log_large [of fish_type pounds env cs]
    unfolding v by blast
qed

theorem catch_log_validation_witness:
  "val_blocked (fst (validate_catch_log sample_env ''Tuna'' 100 init_coach))
   \<and> val_blocked (fst (validate_catch_log sample_env ''Crab'' 0 init_coach))
   \<and> \<not> val_blocked (fst (validate_catch_log sample_env ''Halibut'' 15000 init_coach))
   \<and> length (val_violations (fst (validate_catch_log sample_env ''Halibut'' 15000 init_coach))) = 1"
proof -
  from catch_log_validation [of "''Tuna''" 100 sample_env init_coach]
  have a: "val_blocked (fst (validate_catch_log sample_env ''Tuna'' 100 init_coach))"
    by simp
  from catch_log_validation [of "''Crab''" 0 sample_env init_coach]
  have b: "val_blocked (fst (validate_catch_log sample_env ''Crab'' 0 init_coach))"
    by simp
  from catch_log_validation [of "''Halibut''" 15000 sample_env init_coach]
  have c: "\<not> val_blocked (fst (validate_catch_log sample_env ''Halibut'' 15000 init_coach))
     \<and> length (val_violations (fst (validate_catch_log sample_env ''Halibut'' 15000 init_coach))) = 1"
    by auto
  from a b c show ?thesis by blast
qed

section \<open>Recording the outcome of a coaching\<close>

text \<open>The loop of \<open>record_coaching_outcome\<close> over the history.\<close>

lemma record_outcome_loop_length:
  "length (record_outcome_loop i b t h) = length h"
  by (induction h) auto

lemma record_outcome_loop_absent:
  "i \<notin> event_id ` set h \<Longrightarrow> record_outcome_loop i b t h = h"
  by (induction h) auto

lemma record_outcome_loop_present:
  "i \<in> event_id ` set h \<Longrightarrow>
     \<exists>k < length h. event_id (h ! k) = i \<and> (\<forall>j < k. event_id (h ! j) \<noteq> i) \<and>
        record_outcome_loop i b t h = h[k := (h ! k)\<lparr> improved := Some b, improvement_timeline := t \<rparr>]"
proof (induction h)
  case Nil
  then show ?case by simp
next
  case (Cons e h)
  show ?case
  proof (cases "event_id e = i")
    case True
    then show ?thesis by (intro exI [of _ 0]) simp
  next
    case False
    with Cons.prems have "i \<in> event_id ` set h" by auto
    from Cons.IH [OF this] obtain k where k: "k < length h" "event_id (h ! k) = i"
      "\<forall>j < k. event_id (h ! j) \<noteq> i"
      "record_outcome_loop i b t h = h[k := (h ! k)\<lparr> improved := Some b, improvement_timeline := t \<rparr>]"
      by blast
    have "\<forall>j < Suc k. event_id ((e # h) ! j) \<noteq> i"
      using False k(3) by (auto simp: nth_Cons split: nat.split)
    with k False show ?thesis by (intro exI [of _ "Suc k"]) simp
  qed
qed

lemma record_outcome_loop_texts:
  "map violation_description (record_outcome_loop i b t h) = map violation_description h
   \<and> map coaching_delivered (record_outcome_loop i b t h) = map coaching_delivered h"
  by (induction h) auto

lemma record_outcome_loop_frame:
  "k < length h \<Longrightarrow>
     (record_outcome_loop i b t h ! k) =
       (h ! k)\<lparr> improved := improved (record_outcome_loop i b t h ! k),
                improvement_timeline := improvement_timeline (record_outcome_loop i b t h ! k) \<rparr>
     \<and> (event_id (h ! k) \<noteq> i \<longrightarrow> record_outcome_loop i b t h ! k = h ! k)"
proof (induction h arbitrary: k)
  case Nil
  then show ?case by simp
next
  case (Cons e h)
  then show ?case by (cases k) auto
qed

text \<open>
  C10. For every event id and every state, \<open>record_coaching_outcome\<close> leaves the
  profiles and the length of the history as they are; every event keeps all its fields
  but \<open>improved\<close> and \<open>improvement_timeline\<close>, and an event with another id is not
  changed at all; the violation descriptions and the delivered coaching texts of all
  events stay the same; when an event has the id, the first such event, and only it,
  gets the two outcome fields; when no event has the id, the state is unchanged.
\<close>

theorem record_coaching_outcome_frame:
  "agent_profiles (record_coaching_outcome i b t s) = agent_profiles s
   \<and> peer_lessons (record_coaching_outcome i b t s) = peer_lessons s
   \<and> clock_reads (record_coaching_outcome i b t s) = clock_reads s
   \<and> length (coaching_history (record_coaching_outcome i b t s)) = length (coaching_history s)
   \<and> map violation_description (coaching_history (record_coaching_outcome i b t s)) =
       map violation_description (coaching_history s)
   \<and> map coaching_delivered (coaching_history (record_coaching_outcome i b t s)) =
       map coaching_delivered (coaching_history s)
   \<and> (\<forall>k < length (coaching_history s).
         coaching_history (record_coaching_outcome i b t s) ! k =
           (coaching_history s ! k)\<lparr>
              improved := improved (coaching_history (record_coaching_outcome i b t s) ! k),
              improvement_timeline :=
                improvement_timeline (coaching_history (record_coaching_outcome i b t s) ! k) \<rparr>
         \<and> (event_id (coaching_history s ! k) \<noteq> i \<longrightarrow>
              coaching_history (record_coaching_outcome i b t s) ! k = coaching_history s ! k))
   \<and> (i \<in> event_id ` set (coaching_history s) \<longrightarrow>
        (\<exists>k < length (coaching_history s).
            event_id (coaching_history s ! k) = i
          \<and> (\<forall>j < k. event_id (coaching_history s ! j) \<noteq> i)
          \<and> coaching_history (record_coaching_outcome i b t s) =
              (coaching_history s)[k := (coaching_history s ! k)\<lparr>
                  improved := Some b, improvement_timeline := t \<rparr>]))
   \<and> (i \<notin> event_id ` set (coaching_history s) \<longrightarrow> record_coaching_outcome i b t s = s)"
  using record_outcome_loop_frame [of _ "coaching_history s" i b t]
        record_outcome_loop_present [of i "coaching_history s" b t]
        record_outcome_loop_texts [of i b t "coaching_history s"]
  by (simp add: record_coaching_outcome_def record_outcome_loop_length record_outcome_loop_absent)

lemma coach_agent_event_ids:
  "map event_id (coaching_history (snd (coach_agent env v s))) =
     map event_id (coaching_history s) @ [''coach_'' @ str_float env (now_at env (clock_reads s))]"
  by (simp add: coach_agent_def update_profile_def get_or_create_profile_def Let_def
           split: prod.split option.split)

lemma first_event_id:
  "map event_id (coaching_history (snd (coach_agent sample_env missing_price_violation init_coach)))
     = [''coach_1700000000.0'']"
proof -
  have "str_float sample_env (now_at sample_env (clock_reads init_coach)) = ''1700000000.0''"
    by code_simp
  then show ?thesis
    by (simp add: coach_agent_event_ids init_coach_def)
qed

theorem record_coaching_outcome_frame_witness:
  "record_coaching_outcome ''coach_0.0'' True None
       (snd (coach_agent sample_env missing_price_violation init_coach))
     = snd (coach_agent sample_env missing_price_violation init_coach)
   \<and> map improved (coaching_history (record_coaching_outcome ''coach_1700000000.0'' True (Some 2)
          (snd (coach_agent sample_env missing_price_violation init_coach)))) = [Some True]
   \<and> map coaching_delivered (coaching_history (record_coaching_outcome ''coach_1700000000.0'' True (Some 2)
          (snd (coach_agent sample_env missing_price_violation init_coach))))
      = map coaching_delivered (coaching_history
          (snd (coach_agent sample_env missing_price_violation init_coach)))"
proof -
  let ?s = "snd (coach_agent sample_env missing_price_violation init_coach)"
  obtain e where h: "coaching_history ?s = [e]" and e: "event_id e = ''coach_1700000000.0''"
    using first_event_id by auto
  have absent: "''coach_0.0'' \<notin> event_id ` set (coaching_history ?s)"
    by (simp add: h e)
  have present: "''coach_1700000000.0'' \<in> event_id ` set (coaching_history ?s)"
    by (simp add: h e)
  from record_coaching_outcome_frame [of "''coach_0.0''" True None ?s] absent
  have a: "record_coaching_outcome ''coach_0.0'' True None ?s = ?s" by blast
  from record_coaching_outcome_frame [of "''coach_1700000000.0''" True "Some 2" ?s] present
  have "\<exists>k < length (coaching_history ?s).
          coaching_history (record_coaching_outcome ''coach_1700000000.0'' True (Some 2) ?s) =
            (coaching_history ?s)[k := (coaching_history ?s ! k)\<lparr>
                improved := Some True, improvement_timeline := Some 2 \<rparr>]"
    by blast
  then have b: "map improved (coaching_history
        (record_coaching_outcome ''coach_1700000000.0'' True (Some 2) ?s)) = [Some True]"
    by (auto simp add: h)
  from record_coaching_outcome_frame [of "''coach_1700000000.0''" True "Some 2" ?s]
  have c: "map coaching_delivered (coaching_history
        (record_coaching_outcome ''coach_1700000000.0'' True (Some 2) ?s))
      = map coaching_delivered (coaching_history ?s)"
    by blast
  from a b c show ?thesis by blast
qed

section \<open>Profiles are created once and counted up\<close>

text \<open>What \<open>_get_or_create_profile\<close> returns, by whether the agent id has a profile.\<close>

lemma get_or_create_existing:
  "agent_profiles s a = Some p \<Longrightarrow> get_or_create_profile a t s = (p, s)"
  by (simp add: get_or_create_profile_def)

lemma get_or_create_new:
  "agent_profiles s a = None \<Longrightarrow>
     fst (get_or_create_profile a t s) =
       \<lparr> p_agent_id = a, p_agent_type = t, learning_level = ''intermediate'',
         violation_history = Map.empty, improvement_score = 8 / 10, last_coaching = None,
         coaching_receptiveness = 1, preferred_coaching_style = ''balanced'',
         domain_expertise = [''commercial_fishing'', ''sales_communication''],
         known_weaknesses = [] \<rparr>"
  by (simp add: get_or_create_profile_def Let_def)

text \<open>
  C6. Let \<open>p\<close> be the profile \<open>coach_agent\<close> resolves for the violation's agent id.
  When the id has no profile yet, \<open>p\<close> is a new one with learning level intermediate,
  receptiveness 1 and an empty violation history; otherwise \<open>p\<close> is the stored one.
  After the call the id has a profile whose count for the violation's guardrail is the
  count of \<open>p\<close> plus 1, whose other counts are those of \<open>p\<close>, and whose last-coaching
  time is the call's third reading of the clock. The profiles of all other ids are
  unchanged, and every id that had a profile still has one.
\<close>

theorem coaching_updates_profile:
  "(let p = fst (get_or_create_profile (v_agent_id v) (v_agent_type v) s);
        s' = snd (coach_agent env v s)
    in (agent_profiles s (v_agent_id v) = None \<longrightarrow>
          learning_level p = ''intermediate'' \<and> coaching_receptiveness p = 1
          \<and> violation_history p = Map.empty)
     \<and> (\<forall>q. agent_profiles s (v_agent_id v) = Some q \<longrightarrow> p = q)
     \<and> (\<exists>p'. agent_profiles s' (v_agent_id v) = Some p'
            \<and> get0 (violation_history p') (v_guardrail v) =
                get0 (violation_history p) (v_guardrail v) + 1
            \<and> (\<forall>g. g \<noteq> v_guardrail v \<longrightarrow> violation_history p' g = violation_history p g)
            \<and> last_coaching p' = Some (now_at env (clock_reads s + 2))
            \<and> learning_level p' = learning_level p
            \<and> coaching_receptiveness p' = coaching_receptiveness p)
     \<and> (\<forall>a. a \<noteq> v_agent_id v \<longrightarrow> agent_profiles s' a = agent_profiles s a)
     \<and> dom (agent_profiles s) \<subseteq> dom (agent_profiles s'))"
proof -
  have new: "agent_profiles s (v_agent_id v) = None \<Longrightarrow>
      learning_level (fst (get_or_create_profile (v_agent_id v) (v_agent_type v) s)) = ''intermediate''
      \<and> coaching_receptiveness (fst (get_or_create_profile (v_agent_id v) (v_agent_type v) s)) = 1
      \<and> violation_history (fst (get_or_create_profile (v_agent_id v) (v_agent_type v) s)) = Map.empty"
    by (simp add: get_or_create_new)
  have old: "agent_profiles s (v_agent_id v) = Some q \<Longrightarrow>
      fst (get_or_create_profile (v_agent_id v) (v_agent_type v) s) = q" for q
    by (simp add: get_or_create_existing)
  show ?thesis
    using new old
    by (auto simp add: Let_def coach_agent_profiles get0_def)
qed


lemma missing_price_violation_fields:
  "v_agent_id missing_price_violation = ''fishing_agent_001''"
  "v_agent_type missing_price_violation = SALES_COORDINATOR"
  "v_guardrail missing_price_violation = ''hallucination_prevention''"
  "v_severity missing_price_violation = ''critical''"
  by (simp_all add: missing_price_violation_def create_violation_def)

theorem coaching_updates_profile_witness:
  "\<exists>p'. agent_profiles (snd (coach_agent sample_env missing_price_violation init_coach))
            ''fishing_agent_001'' = Some p'
      \<and> learning_level p' = ''intermediate''
      \<and> coaching_receptiveness p' = 1
      \<and> get0 (violation_history p') ''hallucination_prevention'' = 1
      \<and> violation_history p' ''pii_protection'' = None
      \<and> last_coaching p' = Some 1700000002"
proof -
  have none: "agent_profiles init_coach (v_agent_id missing_price_violation) = None"
    by (simp add: init_coach_def)
  have clock: "now_at sample_env (clock_reads init_coach + 2) = 1700000002"
    by (simp add: sample_env_def init_coach_def)
  from coaching_updates_profile [of missing_price_violation init_coach sample_env] none clock
  show ?thesis
    unfolding Let_def missing_price_violation_fields
    by (auto simp add: get0_def)
qed

section \<open>The predicted effectiveness\<close>

text \<open>
  The profile after a call, from the profile before it, and the prediction in terms of
  the resolved profile. \<open>coach_agent\<close> builds its result after \<open>_update_profile\<close> has
  run, so the count that \<open>_predict_effectiveness\<close> reads includes the present violation.
\<close>

lemma coach_agent_profile_new:
  assumes "agent_profiles s (v_agent_id v) = None"
  shows "\<exists>p'. agent_profiles (snd (coach_agent env v s)) (v_agent_id v) = Some p'
     \<and> p_agent_type p' = v_agent_type v
     \<and> learning_level p' = ''intermediate''
     \<and> coaching_receptiveness p' = 1
     \<and> get0 (violation_history p') (v_guardrail v) = 1"
  using assms by (simp add: coach_agent_profiles get_or_create_new get0_def)

lemma coach_agent_profile_old:
  assumes "agent_profiles s (v_agent_id v) = Some p"
  shows "\<exists>p'. agent_profiles (snd (coach_agent env v s)) (v_agent_id v) = Some p'
     \<and> p_agent_type p' = p_agent_type p
     \<and> learning_level p' = learning_level p
     \<and> coaching_receptiveness p' = coaching_receptiveness p
     \<and> get0 (violation_history p') (v_guardrail v) = get0 (violation_history p) (v_guardrail v) + 1"
  using assms by (simp add: coach_agent_profiles get_or_create_existing get0_def)






section \<open>When the pattern warning escalates\<close>

text \<open>
  The coaching text of a call depends on the resolved profile only through its agent
  type, its learning level and its count for the violation's guardrail, so the texts of
  the first calls of a fresh coach can be computed from sample profiles.
\<close>

lemma generate_coaching_by_fields:
  assumes "p_agent_type p = p_agent_type q"
      and "get0 (violation_history p) (v_guardrail v) = get0 (violation_history q) (v_guardrail v)"
  shows "generate_coaching v a p ap = generate_coaching v b q ap"
  using assms by (simp add: generate_coaching_def analyze_pattern_def Let_def)

lemma coach_agent_text_by_fields:
  assumes "p_agent_type (fst (get_or_create_profile (v_agent_id v) (v_agent_type v) s)) = p_agent_type q"
      and "learning_level (fst (get_or_create_profile (v_agent_id v) (v_agent_type v) s)) = learning_level q"
      and "get0 (violation_history (fst (get_or_create_profile (v_agent_id v) (v_agent_type v) s)))
             (v_guardrail v) = get0 (violation_history q) (v_guardrail v)"
      and "peer_lessons s = Map.empty"
  shows "coaching (fst (coach_agent env v s)) =
           generate_coaching v (analyze_violation v q) q
             (select_coaching_approach (v_guardrail v) (p_agent_type q) (learning_level q))"
proof -
  have "get_peer_lessons s (v_guardrail v) (v_agent_id v) = []"
    using assms(4) by (simp add: get_peer_lessons_def)
  then show ?thesis
    using generate_coaching_by_fields [OF assms(1) assms(3)] assms(1,2)
    by (simp add: coach_agent_text Let_def)
qed

lemma sample_texts:
  "\<not> str_in ''human review''
       (generate_coaching missing_price_violation
          (analyze_violation missing_price_violation (sample_profile 0)) (sample_profile 0)
          (select_coaching_approach (v_guardrail missing_price_violation)
             (p_agent_type (sample_profile 0)) (learning_level (sample_profile 0))))"
  "\<not> str_in ''human review''
       (generate_coaching missing_price_violation
          (analyze_violation missing_price_violation (sample_profile 2)) (sample_profile 2)
          (select_coaching_approach (v_guardrail missing_price_violation)
             (p_agent_type (sample_profile 2)) (learning_level (sample_profile 2))))"
  "str_in ''This is the 2nd violation of this type''
       (generate_coaching missing_price_violation
          (analyze_violation missing_price_violation (sample_profile 2)) (sample_profile 2)
          (select_coaching_approach (v_guardrail missing_price_violation)
             (p_agent_type (sample_profile 2)) (learning_level (sample_profile 2))))"
  "str_in ''this may escalate to human review''
       (generate_coaching missing_price_violation
          (analyze_violation missing_price_violation (sample_profile 3)) (sample_profile 3)
          (select_coaching_approach (v_guardrail missing_price_violation)
             (p_agent_type (sample_profile 3)) (learning_level (sample_profile 3))))"
  by code_simp+


lemma get0_empty: "get0 Map.empty k = 0"
  by (simp add: get0_def)

lemma sample_profile_fields:
  "p_agent_type (sample_profile n) = SALES_COORDINATOR"
  "learning_level (sample_profile n) = ''intermediate''"
  "get0 (violation_history (sample_profile n)) ''hallucination_prevention'' = n"
  by (simp_all add: sample_profile_def get0_def)

lemma repeated_missing_price_profiles:
  fixes env :: env
  defines "s1 \<equiv> snd (coach_agent env missing_price_violation init_coach)"
  defines "s2 \<equiv> snd (coach_agent env missing_price_violation s1)"
  defines "s3 \<equiv> snd (coach_agent env missing_price_violation s2)"
  shows "\<exists>p2 p3. agent_profiles s2 ''fishing_agent_001'' = Some p2
       \<and> p_agent_type p2 = SALES_COORDINATOR \<and> learning_level p2 = ''intermediate''
       \<and> get0 (violation_history p2) ''hallucination_prevention'' = 2
       \<and> agent_profiles s3 ''fishing_agent_001'' = Some p3
       \<and> p_agent_type p3 = SALES_COORDINATOR \<and> learning_level p3 = ''intermediate''
       \<and> get0 (violation_history p3) ''hallucination_prevention'' = 3
       \<and> peer_lessons s2 = Map.empty \<and> peer_lessons s3 = Map.empty"
proof -
  let ?v = missing_price_violation
  have "agent_profiles init_coach (v_agent_id ?v) = None"
    by (simp add: init_coach_def)
  from coach_agent_profile_new [OF this, of env]
  obtain p1 where p1: "agent_profiles s1 (v_agent_id ?v) = Some p1"
      "p_agent_type p1 = SALES_COORDINATOR" "learning_level p1 = ''intermediate''"
      "get0 (violation_history p1) (v_guardrail ?v) = 1"
    unfolding s1_def by (auto simp add: missing_price_violation_fields)
  from coach_agent_profile_old [OF p1(1), of env]
  obtain p2 where p2: "agent_profiles s2 (v_agent_id ?v) = Some p2"
      "p_agent_type p2 = SALES_COORDINATOR" "learning_level p2 = ''intermediate''"
      "get0 (violation_history p2) (v_guardrail ?v) = 2"
    unfolding s2_def using p1 by auto
  from coach_agent_profile_old [OF p2(1), of env]
  obtain p3 where p3: "agent_profiles s3 (v_agent_id ?v) = Some p3"
      "p_agent_type p3 = SALES_COORDINATOR" "learning_level p3 = ''intermediate''"
      "get0 (violation_history p3) (v_guardrail ?v) = 3"
    unfolding s3_def using p2 by auto
  have peer: "peer_lessons s2 = Map.empty" "peer_lessons s3 = Map.empty"
    by (simp_all add: s1_def s2_def s3_def coach_agent_peer init_coach_def)
  show ?thesis
    using p2 p3 peer by (simp add: missing_price_violation_fields)
qed

text \<open>
  C4. The specification has the human-review phrase in the coaching text of the 3rd and
  every later call for one agent and guardrail, and not in the 1st. Evaluated on a fresh
  coach that is given the missing-price violation again and again: the text of the 1st
  call does not contain the phrase, the text of the 3rd call does not contain it either
  and carries the note "This is the 2nd violation of this type", and the text of the 4th
  call contains it. \<open>_analyze_pattern\<close> reads the count before \<open>_update_profile\<close> has
  counted the present violation.
\<close>

theorem escalation_starts_at_fourth_call:
  "let v = missing_price_violation;
       s1 = snd (coach_agent env v init_coach);
       s2 = snd (coach_agent env v s1);
       s3 = snd (coach_agent env v s2)
   in \<not> str_in ''human review'' (coaching (fst (coach_agent env v init_coach)))
    \<and> \<not> str_in ''human review'' (coaching (fst (coach_agent env v s2)))
    \<and> str_in ''This is the 2nd violation of this type'' (coaching (fst (coach_agent env v s2)))
    \<and> str_in ''this may escalate to human review'' (coaching (fst (coach_agent env v s3)))"
proof -
  let ?v = missing_price_violation
  let ?s1 = "snd (coach_agent env ?v init_coach)"
  let ?s2 = "snd (coach_agent env ?v ?s1)"
  let ?s3 = "snd (coach_agent env ?v ?s2)"
  have t0: "coaching (fst (coach_agent env ?v init_coach)) =
      generate_coaching ?v (analyze_violation ?v (sample_profile 0)) (sample_profile 0)
        (select_coaching_approach (v_guardrail ?v) (p_agent_type (sample_profile 0))
           (learning_level (sample_profile 0)))"
    by (rule coach_agent_text_by_fields)
       (simp_all add: get_or_create_new init_coach_def missing_price_violation_fields
          sample_profile_fields get0_empty)
  obtain p2 p3 where p2: "agent_profiles ?s2 ''fishing_agent_001'' = Some p2"
      "p_agent_type p2 = SALES_COORDINATOR" "learning_level p2 = ''intermediate''"
      "get0 (violation_history p2) ''hallucination_prevention'' = 2"
    and p3: "agent_profiles ?s3 ''fishing_agent_001'' = Some p3"
      "p_agent_type p3 = SALES_COORDINATOR" "learning_level p3 = ''intermediate''"
      "get0 (violation_history p3) ''hallucination_prevention'' = 3"
    and peer: "peer_lessons ?s2 = Map.empty" "peer_lessons ?s3 = Map.empty"
    using repeated_missing_price_profiles [of env] by blast
  have t2: "coaching (fst (coach_agent env ?v ?s2)) =
      generate_coaching ?v (analyze_violation ?v (sample_profile 2)) (sample_profile 2)
        (select_coaching_approach (v_guardrail ?v) (p_agent_type (sample_profile 2))
           (learning_level (sample_profile 2)))"
    using p2 peer(1)
    by (intro coach_agent_text_by_fields)
       (simp_all add: get_or_create_existing missing_price_violation_fields sample_profile_fields)
  have t3: "coaching (fst (coach_agent env ?v ?s3)) =
      generate_coaching ?v (analyze_violation ?v (sample_profile 3)) (sample_profile 3)
        (select_coaching_approach (v_guardrail ?v) (p_agent_type (sample_profile 3))
           (learning_level (sample_profile 3)))"
    using p3 peer(2)
    by (intro coach_agent_text_by_fields)
       (simp_all add: get_or_create_existing missing_price_violation_fields sample_profile_fields)
  show ?thesis
    unfolding Let_def t0 t2 t3 using sample_texts by blast
qed

end
